theory Spec2Isabelle
  imports Complex_Main "HOL-Library.Multiset"
begin

section \<open>The rules engine\<close>

text \<open>
  The program (\<^verbatim>\<open>points-chess-assistant-revised.py\<close>) delegates the rules of chess to
  the library python-chess. The library is not part of the repository, so the queries the
  program makes of it are taken as a parameter: a record \<open>R\<close> of functions over an
  arbitrary board type \<open>'b\<close>. Every definition below that the program writes itself is
  translated from the source; every theorem that is stated for all \<open>R\<close> holds whatever
  the library computes. As in the library, a colour is a truth value
  (\<^verbatim>\<open>chess.WHITE = True\<close>, \<^verbatim>\<open>chess.BLACK = False\<close>), a square is a number
  (\<^verbatim>\<open>a1 = 0\<close>, ..., \<^verbatim>\<open>h8 = 63\<close>), and \<^verbatim>\<open>board.push\<close>, which mutates the
  board in place, is the function from the old board to the new one.
\<close>

datatype piece_type = PAWN | KNIGHT | BISHOP | ROOK | QUEEN | KING

record piece =
  piece_type :: piece_type
  color :: bool

record move =
  from_square :: nat
  to_square :: nat
  promotion :: "piece_type option"

abbreviation (input) WHITE :: bool where "WHITE \<equiv> True"
abbreviation (input) BLACK :: bool where "BLACK \<equiv> False"

record 'b rules =
  from_uci :: "string \<Rightarrow> move option"
  uci :: "move \<Rightarrow> string"
  legal_moves :: "'b \<Rightarrow> move list"
  piece_at :: "'b \<Rightarrow> nat \<Rightarrow> piece option"
  push :: "'b \<Rightarrow> move \<Rightarrow> 'b"
  is_checkmate :: "'b \<Rightarrow> bool"
  is_check :: "'b \<Rightarrow> bool"
  is_attacked_by :: "'b \<Rightarrow> bool \<Rightarrow> nat \<Rightarrow> bool"
  turn :: "'b \<Rightarrow> bool"
  fen :: "'b \<Rightarrow> string"

text \<open>
  \<open>from_uci R s = None\<close> stands for the \<^verbatim>\<open>ValueError\<close> that
  \<^verbatim>\<open>chess.Move.from_uci\<close> raises on a string that is not a move.
\<close>

section \<open>The game: class PointsChessGame\<close>

text \<open>
  \<^verbatim>\<open>moves_played\<close> and \<^verbatim>\<open>points_captured\<close> are dictionaries that hold exactly the
  keys \<^verbatim>\<open>'white'\<close> and \<^verbatim>\<open>'black'\<close> from their creation on (no key is ever added or
  deleted), so each is a record of two unbounded integers. The key is the string
  \<^verbatim>\<open>player\<close>, which the program computes from \<^verbatim>\<open>current_player\<close>.
\<close>

record side_dict =
  white :: int
  black :: int

definition player_name :: "bool \<Rightarrow> string" where
  "player_name c = (if c = WHITE then ''white'' else ''black'')"

definition dict_get :: "side_dict \<Rightarrow> string \<Rightarrow> int" where
  "dict_get d k = (if k = ''white'' then white d else black d)"

definition dict_add :: "side_dict \<Rightarrow> string \<Rightarrow> int \<Rightarrow> side_dict" where
  "dict_add d k n = (if k = ''white'' then d\<lparr>white := white d + n\<rparr>
                     else d\<lparr>black := black d + n\<rparr>)"

fun PIECE_VALUES :: "piece_type \<Rightarrow> int" where
  "PIECE_VALUES PAWN = 1"
| "PIECE_VALUES KNIGHT = 3"
| "PIECE_VALUES BISHOP = 3"
| "PIECE_VALUES ROOK = 5"
| "PIECE_VALUES QUEEN = 9"
| "PIECE_VALUES KING = 0"

record 'b game =
  board :: 'b
  max_moves :: int
  moves_played :: side_dict
  points_captured :: side_dict
  current_player :: bool
  game_over :: bool
  winner :: "string option"
  last_move_was_capture :: bool
  extra_move_granted :: bool

text \<open>
  \<^verbatim>\<open>__init__\<close>. The argument is the board that \<^verbatim>\<open>chess.Board(fen=...)\<close> builds (the
  empty board in the source).
\<close>

definition PointsChessGame :: "'b \<Rightarrow> 'b game" where
  "PointsChessGame b =
     \<lparr>board = b, max_moves = 6,
      moves_played = \<lparr>white = 0, black = 0\<rparr>,
      points_captured = \<lparr>white = 0, black = 0\<rparr>,
      current_player = WHITE, game_over = False, winner = None,
      last_move_was_capture = False, extra_move_granted = False\<rparr>"

definition reset_game_state :: "'b game \<Rightarrow> 'b game" where
  "reset_game_state g =
     g\<lparr>moves_played := \<lparr>white = 0, black = 0\<rparr>,
       points_captured := \<lparr>white = 0, black = 0\<rparr>,
       game_over := False, winner := None,
       last_move_was_capture := False, extra_move_granted := False\<rparr>"

text \<open>
  \<^verbatim>\<open>set_custom_position\<close>, after \<^verbatim>\<open>chess.Board(fen)\<close> has built the board \<open>b\<close>
  (when the library rejects the string, the game is left as it is).
\<close>

definition set_custom_position :: "'b game \<Rightarrow> 'b \<Rightarrow> 'b game" where
  "set_custom_position g b = reset_game_state (g\<lparr>board := b\<rparr>)"

definition is_square_attacked :: "'b rules \<Rightarrow> 'b game \<Rightarrow> nat \<Rightarrow> bool \<Rightarrow> bool" where
  "is_square_attacked R g square by_color = is_attacked_by R (board g) by_color square"

text \<open>The winner on points, as both \<^verbatim>\<open>make_move\<close> and \<^verbatim>\<open>skip_turn\<close> decide it.\<close>

definition winner_by_points :: "'b game \<Rightarrow> string" where
  "winner_by_points g =
     (if white (points_captured g) > black (points_captured g) then ''white''
      else if black (points_captured g) > white (points_captured g) then ''black''
      else ''draw'')"

text \<open>
  \<^verbatim>\<open>make_move\<close>, statement by statement. The result is the returned truth value and
  the game after the call. \<open>grant_extra\<close> is the block of lines 66 to 77: the points of
  the captured piece, and the flag set when the move is the player's last scheduled one
  and the destination is attacked by the other colour on the board \<^emph>\<open>before\<close> the
  move is pushed.
\<close>

definition grant_extra :: "'b rules \<Rightarrow> 'b game \<Rightarrow> move \<Rightarrow> piece option \<Rightarrow> int \<times> 'b game" where
  "grant_extra R g mv captured_piece =
     (case captured_piece of
        None \<Rightarrow> (0, g)
      | Some cp \<Rightarrow>
          (PIECE_VALUES (piece_type cp),
           if dict_get (moves_played g) (player_name (current_player g)) = max_moves g - 1
           then (if is_square_attacked R g (to_square mv) (\<not> current_player g)
                 then g\<lparr>extra_move_granted := True\<rparr> else g)
           else g))"

definition end_by_move_count :: "'b game \<Rightarrow> 'b game" where
  "end_by_move_count g =
     (if white (moves_played g) \<ge> max_moves g \<and> black (moves_played g) \<ge> max_moves g
         \<and> \<not> extra_move_granted g
      then g\<lparr>game_over := True, winner := Some (winner_by_points g)\<rparr>
      else g)"

definition handle_extra_move :: "'b game \<Rightarrow> 'b game" where
  "handle_extra_move g =
     (if extra_move_granted g then g\<lparr>extra_move_granted := False\<rparr>
      else g\<lparr>current_player := (\<not> current_player g)\<rparr>)"

definition apply_move :: "'b rules \<Rightarrow> 'b game \<Rightarrow> move \<Rightarrow> 'b game" where
  "apply_move R g mv =
     (let captured_piece = piece_at R (board g) (to_square mv);
          g1 = g\<lparr>last_move_was_capture := (captured_piece \<noteq> None)\<rparr>;
          (captured_points, g2) = grant_extra R g1 mv captured_piece;
          g3 = g2\<lparr>board := push R (board g2) mv\<rparr>;
          player = player_name (current_player g3);
          g4 = g3\<lparr>points_captured := dict_add (points_captured g3) player captured_points\<rparr>;
          g5 = g4\<lparr>moves_played := dict_add (moves_played g4) player 1\<rparr>
      in if is_checkmate R (board g5)
         then g5\<lparr>game_over := True, winner := Some player\<rparr>
         else handle_extra_move (end_by_move_count g5))"

definition make_move :: "'b rules \<Rightarrow> 'b game \<Rightarrow> string \<Rightarrow> bool \<times> 'b game" where
  "make_move R g move_uci =
     (case from_uci R move_uci of
        None \<Rightarrow> (False, g)
      | Some mv \<Rightarrow>
          if mv \<notin> set (legal_moves R (board g)) then (False, g)
          else (True, apply_move R g mv))"

definition get_legal_moves :: "'b rules \<Rightarrow> 'b game \<Rightarrow> string list" where
  "get_legal_moves R g = map (uci R) (legal_moves R (board g))"

definition skip_turn :: "'b game \<Rightarrow> bool \<times> 'b game" where
  "skip_turn g =
     (let player = player_name (current_player g);
          g1 = g\<lparr>moves_played := dict_add (moves_played g) player 1\<rparr>;
          g2 = g1\<lparr>current_player := (\<not> current_player g1)\<rparr>
      in (True,
          if white (moves_played g2) \<ge> max_moves g2 \<and> black (moves_played g2) \<ge> max_moves g2
          then g2\<lparr>game_over := True, winner := Some (winner_by_points g2)\<rparr>
          else g2))"

text \<open>
  \<^verbatim>\<open>evaluate_position\<close>. The source computes with Python integers and floats
  (\<^verbatim>\<open>material_eval *= 1.5\<close>, \<^verbatim>\<open>capture_value * 0.1\<close>); the model computes the same
  expressions in exact rational arithmetic, so it says nothing about rounding.
  \<open>capture_bonus\<close> is the loop over \<^verbatim>\<open>self.board.legal_moves\<close> of lines 155 to 162.
\<close>

fun capture_bonus :: "'b rules \<Rightarrow> 'b \<Rightarrow> move list \<Rightarrow> rat \<Rightarrow> rat" where
  "capture_bonus R b [] material_eval = material_eval"
| "capture_bonus R b (mv # mvs) material_eval =
     capture_bonus R b mvs
       (case piece_at R b (to_square mv) of
          None \<Rightarrow> material_eval
        | Some cp \<Rightarrow>
            (if turn R b = WHITE
             then material_eval + of_int (PIECE_VALUES (piece_type cp)) * (1 / 10)
             else material_eval - of_int (PIECE_VALUES (piece_type cp)) * (1 / 10)))"

definition evaluate_position :: "'b rules \<Rightarrow> 'b game \<Rightarrow> rat" where
  "evaluate_position R g =
     (if game_over g then
        (if winner g = Some ''white'' then 10000
         else if winner g = Some ''black'' then - 10000
         else 0)
      else
        (let m0 = of_int (white (points_captured g) - black (points_captured g));
             m1 = (if is_check R (board g)
                   then (if turn R (board g) = WHITE then m0 - 5 else m0 + 5)
                   else m0);
             white_moves_left = max_moves g - white (moves_played g);
             black_moves_left = max_moves g - black (moves_played g);
             m2 = (if white_moves_left \<le> 2 \<or> black_moves_left \<le> 2 then m1 * (3 / 2) else m1)
         in capture_bonus R (board g) (legal_moves R (board g)) m2))"

subsection \<open>Python's \<^verbatim>\<open>str\<close> of an integer and of the dictionary\<close>

definition digit_char :: "nat \<Rightarrow> char" where
  "digit_char n = ''0123456789'' ! (n mod 10)"

function str_nat :: "nat \<Rightarrow> string" where
  "str_nat n = (if n < 10 then [digit_char n] else str_nat (n div 10) @ [digit_char n])"
  by pat_completeness auto
termination
  by (relation "measure id") auto

definition str_int :: "int \<Rightarrow> string" where
  "str_int i = (if i < 0 then CHR ''-'' # str_nat (nat (- i)) else str_nat (nat i))"

definition str_dict :: "side_dict \<Rightarrow> string" where
  "str_dict d = ''{'white': '' @ str_int (white d) @ '', 'black': '' @ str_int (black d) @ ''}''"

text \<open>\<^verbatim>\<open>ChessEngine._get_position_hash\<close>: the key of the transposition table.\<close>

definition get_position_hash :: "'b rules \<Rightarrow> 'b game \<Rightarrow> string" where
  "get_position_hash R g = fen R (board g) @ str_dict (moves_played g)"

section \<open>A rules engine to run the program on\<close>

text \<open>
  The concrete statements below (witnesses and counterexamples) run the program on a
  rules engine that is written out here: chess on the usual board with the usual moves
  of the six pieces, promotion, check and checkmate, without castling and en passant
  (no position used below has castling rights or an en-passant square). A board is the
  list of its occupied squares, the side to move and the two move counters of a FEN
  string. The order in which \<open>cb_legal_moves\<close> lists the moves is this engine's own.
\<close>

record chess_board =
  pieces :: "(nat \<times> piece) list"
  to_move :: bool
  halfmove_clock :: nat
  fullmove_number :: nat

definition cb_piece_at :: "chess_board \<Rightarrow> nat \<Rightarrow> piece option" where
  "cb_piece_at b sq = map_of (pieces b) sq"

text \<open>The square \<open>df\<close> files and \<open>dr\<close> ranks away from \<open>sq\<close>, when it is on the board.\<close>

definition offset :: "nat \<Rightarrow> int \<Rightarrow> int \<Rightarrow> nat option" where
  "offset sq df dr =
     (let f = int (sq mod 8) + df; r = int (sq div 8) + dr
      in if 0 \<le> f \<and> f < 8 \<and> 0 \<le> r \<and> r < 8 then Some (nat (8 * r + f)) else None)"

text \<open>A sliding piece sees every square of a line up to and including the first occupied one.\<close>

fun ray :: "chess_board \<Rightarrow> nat \<Rightarrow> nat \<Rightarrow> int \<Rightarrow> int \<Rightarrow> nat list" where
  "ray b 0 sq df dr = []"
| "ray b (Suc n) sq df dr =
     (case offset sq df dr of
        None \<Rightarrow> []
      | Some t \<Rightarrow> (if cb_piece_at b t = None then t # ray b n t df dr else [t]))"

definition steps :: "nat \<Rightarrow> (int \<times> int) list \<Rightarrow> nat list" where
  "steps sq ds =
     concat (map (\<lambda>(df, dr). case offset sq df dr of None \<Rightarrow> [] | Some t \<Rightarrow> [t]) ds)"

definition rays :: "chess_board \<Rightarrow> nat \<Rightarrow> (int \<times> int) list \<Rightarrow> nat list" where
  "rays b sq ds = concat (map (\<lambda>(df, dr). ray b 7 sq df dr) ds)"

definition straight :: "(int \<times> int) list" where
  "straight = [(1, 0), (-1, 0), (0, 1), (0, -1)]"

definition diagonal :: "(int \<times> int) list" where
  "diagonal = [(1, 1), (1, -1), (-1, 1), (-1, -1)]"

definition attacks :: "chess_board \<Rightarrow> nat \<Rightarrow> piece \<Rightarrow> nat list" where
  "attacks b sq p =
     (case piece_type p of
        PAWN \<Rightarrow> steps sq (if color p = WHITE then [(-1, 1), (1, 1)] else [(-1, -1), (1, -1)])
      | KNIGHT \<Rightarrow>
          steps sq [(1, 2), (2, 1), (2, -1), (1, -2), (-1, -2), (-2, -1), (-2, 1), (-1, 2)]
      | BISHOP \<Rightarrow> rays b sq diagonal
      | ROOK \<Rightarrow> rays b sq straight
      | QUEEN \<Rightarrow> rays b sq (straight @ diagonal)
      | KING \<Rightarrow> steps sq (straight @ diagonal))"

definition cb_is_attacked_by :: "chess_board \<Rightarrow> bool \<Rightarrow> nat \<Rightarrow> bool" where
  "cb_is_attacked_by b c sq =
     list_ex (\<lambda>(s, p). color p = c \<and> sq \<in> set (attacks b s p)) (pieces b)"

definition king_square :: "chess_board \<Rightarrow> bool \<Rightarrow> nat option" where
  "king_square b c =
     map_option fst (find (\<lambda>(s, p). piece_type p = KING \<and> color p = c) (pieces b))"

definition in_check :: "chess_board \<Rightarrow> bool \<Rightarrow> bool" where
  "in_check b c =
     (case king_square b c of None \<Rightarrow> False | Some k \<Rightarrow> cb_is_attacked_by b (\<not> c) k)"

definition cb_is_check :: "chess_board \<Rightarrow> bool" where
  "cb_is_check b = in_check b (to_move b)"

definition cb_push :: "chess_board \<Rightarrow> move \<Rightarrow> chess_board" where
  "cb_push b m =
     (case cb_piece_at b (from_square m) of
        None \<Rightarrow> b\<lparr>to_move := (\<not> to_move b)\<rparr>
      | Some p \<Rightarrow>
          (let rest = filter (\<lambda>(s, q). s \<noteq> from_square m \<and> s \<noteq> to_square m) (pieces b);
               p' = (case promotion m of None \<Rightarrow> p | Some k \<Rightarrow> p\<lparr>piece_type := k\<rparr>)
           in \<lparr>pieces = (to_square m, p') # rest,
               to_move = (\<not> to_move b),
               halfmove_clock =
                 (if piece_type p = PAWN \<or> cb_piece_at b (to_square m) \<noteq> None then 0
                  else Suc (halfmove_clock b)),
               fullmove_number =
                 (if to_move b = BLACK then Suc (fullmove_number b) else fullmove_number b)\<rparr>))"

definition plain :: "nat \<Rightarrow> nat \<Rightarrow> move" where
  "plain s t = \<lparr>from_square = s, to_square = t, promotion = None\<rparr>"

definition pawn_to :: "nat \<Rightarrow> nat \<Rightarrow> move list" where
  "pawn_to s t =
     (if t div 8 = 0 \<or> t div 8 = 7
      then map (\<lambda>k. \<lparr>from_square = s, to_square = t, promotion = Some k\<rparr>)
             [QUEEN, ROOK, BISHOP, KNIGHT]
      else [plain s t])"

definition pawn_moves :: "chess_board \<Rightarrow> nat \<Rightarrow> piece \<Rightarrow> move list" where
  "pawn_moves b s p =
     (let dr = (if color p = WHITE then 1 else - 1);
          home = (if color p = WHITE then 1 else 6);
          captures =
            filter (\<lambda>t. case cb_piece_at b t of None \<Rightarrow> False | Some q \<Rightarrow> color q \<noteq> color p)
              (attacks b s p);
          single = (case offset s 0 dr of
                      None \<Rightarrow> []
                    | Some t \<Rightarrow> if cb_piece_at b t = None then [t] else []);
          double = (if s div 8 = home \<and> single \<noteq> []
                    then (case offset s 0 (2 * dr) of
                            None \<Rightarrow> []
                          | Some t \<Rightarrow> if cb_piece_at b t = None then [t] else [])
                    else [])
      in concat (map (pawn_to s) (captures @ single @ double)))"

definition piece_moves :: "chess_board \<Rightarrow> nat \<Rightarrow> piece \<Rightarrow> move list" where
  "piece_moves b s p =
     (if piece_type p = PAWN then pawn_moves b s p
      else map (plain s)
             (filter (\<lambda>t. case cb_piece_at b t of None \<Rightarrow> True | Some q \<Rightarrow> color q \<noteq> color p)
                (attacks b s p)))"

definition pseudo_legal :: "chess_board \<Rightarrow> move list" where
  "pseudo_legal b =
     concat (map (\<lambda>(s, p). if color p = to_move b then piece_moves b s p else []) (pieces b))"

text \<open>A move goes from a square of the board to another square of the board.\<close>

definition on_board :: "move \<Rightarrow> bool" where
  "on_board m = (from_square m < 64 \<and> to_square m < 64 \<and> from_square m \<noteq> to_square m)"

definition cb_legal_moves :: "chess_board \<Rightarrow> move list" where
  "cb_legal_moves b =
     filter (\<lambda>m. on_board m \<and> \<not> in_check (cb_push b m) (to_move b)) (pseudo_legal b)"

definition cb_is_checkmate :: "chess_board \<Rightarrow> bool" where
  "cb_is_checkmate b = (cb_is_check b \<and> cb_legal_moves b = [])"

subsection \<open>Coordinate notation and FEN\<close>

definition piece_symbol :: "piece_type \<Rightarrow> char" where
  "piece_symbol k =
     (case k of PAWN \<Rightarrow> CHR ''p'' | KNIGHT \<Rightarrow> CHR ''n'' | BISHOP \<Rightarrow> CHR ''b''
      | ROOK \<Rightarrow> CHR ''r'' | QUEEN \<Rightarrow> CHR ''q'' | KING \<Rightarrow> CHR ''k'')"

definition piece_letter :: "piece \<Rightarrow> char" where
  "piece_letter p =
     (if color p = WHITE
      then (case piece_type p of PAWN \<Rightarrow> CHR ''P'' | KNIGHT \<Rightarrow> CHR ''N'' | BISHOP \<Rightarrow> CHR ''B''
            | ROOK \<Rightarrow> CHR ''R'' | QUEEN \<Rightarrow> CHR ''Q'' | KING \<Rightarrow> CHR ''K'')
      else piece_symbol (piece_type p))"

definition square_name :: "nat \<Rightarrow> string" where
  "square_name sq = [''abcdefgh'' ! (sq mod 8), ''12345678'' ! (sq div 8 mod 8)]"

definition cb_uci :: "move \<Rightarrow> string" where
  "cb_uci m =
     square_name (from_square m) @ square_name (to_square m)
     @ (case promotion m of None \<Rightarrow> [] | Some k \<Rightarrow> [piece_symbol k])"

fun index_of :: "'a list \<Rightarrow> 'a \<Rightarrow> nat option" where
  "index_of [] x = None"
| "index_of (y # ys) x = (if x = y then Some 0 else map_option Suc (index_of ys x))"

definition parse_square :: "string \<Rightarrow> nat option" where
  "parse_square s =
     (case s of
        [f, r] \<Rightarrow>
          (case (index_of ''abcdefgh'' f, index_of ''12345678'' r) of
             (Some i, Some j) \<Rightarrow> Some (8 * j + i)
           | _ \<Rightarrow> None)
      | _ \<Rightarrow> None)"

definition parse_promotion :: "string \<Rightarrow> piece_type option option" where
  "parse_promotion s =
     (case s of
        [] \<Rightarrow> Some None
      | [c] \<Rightarrow> map_option Some
                 (map_of [(CHR ''p'', PAWN), (CHR ''n'', KNIGHT), (CHR ''b'', BISHOP),
                          (CHR ''r'', ROOK), (CHR ''q'', QUEEN), (CHR ''k'', KING)] c)
      | _ \<Rightarrow> None)"

definition cb_from_uci :: "string \<Rightarrow> move option" where
  "cb_from_uci s =
     (if s = ''0000'' then Some (plain 0 0)
      else case (parse_square (take 2 s), parse_square (take 2 (drop 2 s)),
                 parse_promotion (drop 4 s)) of
             (Some f, Some t, Some k) \<Rightarrow>
               (if f = t then None else Some \<lparr>from_square = f, to_square = t, promotion = k\<rparr>)
           | _ \<Rightarrow> None)"

fun fen_rank :: "chess_board \<Rightarrow> nat \<Rightarrow> nat list \<Rightarrow> nat \<Rightarrow> string" where
  "fen_rank b r [] e = (if e = 0 then [] else str_nat e)"
| "fen_rank b r (f # fs) e =
     (case cb_piece_at b (8 * r + f) of
        None \<Rightarrow> fen_rank b r fs (Suc e)
      | Some p \<Rightarrow> (if e = 0 then [] else str_nat e) @ piece_letter p # fen_rank b r fs 0)"

fun join :: "string \<Rightarrow> string list \<Rightarrow> string" where
  "join sep [] = []"
| "join sep [x] = x"
| "join sep (x # y # ys) = x @ sep @ join sep (y # ys)"

definition cb_fen :: "chess_board \<Rightarrow> string" where
  "cb_fen b =
     join ''/'' (map (\<lambda>r. fen_rank b r [0, 1, 2, 3, 4, 5, 6, 7] 0) [7, 6, 5, 4, 3, 2, 1, 0])
     @ (if to_move b = WHITE then '' w '' else '' b '') @ ''- - ''
     @ str_nat (halfmove_clock b) @ '' '' @ str_nat (fullmove_number b)"

definition chess :: "chess_board rules" where
  "chess =
     \<lparr>from_uci = cb_from_uci, uci = cb_uci, legal_moves = cb_legal_moves,
      piece_at = cb_piece_at, push = cb_push, is_checkmate = cb_is_checkmate,
      is_check = cb_is_check, is_attacked_by = cb_is_attacked_by, turn = to_move,
      fen = cb_fen\<rparr>"

definition wp :: "piece_type \<Rightarrow> piece" where
  "wp k = \<lparr>piece_type = k, color = WHITE\<rparr>"

definition bp :: "piece_type \<Rightarrow> piece" where
  "bp k = \<lparr>piece_type = k, color = BLACK\<rparr>"

definition position :: "(nat \<times> piece) list \<Rightarrow> bool \<Rightarrow> chess_board" where
  "position ps c = \<lparr>pieces = ps, to_move = c, halfmove_clock = 0, fullmove_number = 1\<rparr>"

subsection \<open>Positions\<close>

text \<open>
  Scenario C of the specification: White Ke1 and pawn e4, Black Ke8, pawn d5 and knight f6;
  White to move. The pawn on d5 is defended by the knight.
\<close>

definition scenario_c :: chess_board where
  "scenario_c =
     position [(4, wp KING), (28, wp PAWN), (60, bp KING), (35, bp PAWN), (45, bp KNIGHT)] WHITE"

text \<open>Scenario D: a back-rank mate in one, \<^verbatim>\<open>a1a8\<close>, with no move played so far.\<close>

definition back_rank :: chess_board where
  "back_rank =
     position [(6, wp KING), (0, wp ROOK), (62, bp KING), (53, bp PAWN), (54, bp PAWN),
               (55, bp PAWN)] WHITE"




section \<open>Auxiliary notions for the statements\<close>

text \<open>
  \<open>earns_extra\<close>: the move is a capture, it is the mover's last scheduled move, and the
  destination is attacked by the other colour on the board before the move (the test of
  lines 66 to 76). \<open>extra_pending\<close>: the value of \<^verbatim>\<open>extra_move_granted\<close> when the
  move count is checked at line 98. \<open>counted\<close>: the game when line 87 has run.
\<close>

definition earns_extra :: "'b rules \<Rightarrow> 'b game \<Rightarrow> move \<Rightarrow> bool" where
  "earns_extra R g mv =
     (piece_at R (board g) (to_square mv) \<noteq> None
      \<and> dict_get (moves_played g) (player_name (current_player g)) = max_moves g - 1
      \<and> is_attacked_by R (board g) (\<not> current_player g) (to_square mv))"

definition extra_pending :: "'b rules \<Rightarrow> 'b game \<Rightarrow> move \<Rightarrow> bool" where
  "extra_pending R g mv = (extra_move_granted g \<or> earns_extra R g mv)"

definition counted :: "'b rules \<Rightarrow> 'b game \<Rightarrow> move \<Rightarrow> 'b game" where
  "counted R g mv =
     g\<lparr>last_move_was_capture := (piece_at R (board g) (to_square mv) \<noteq> None),
       extra_move_granted := extra_pending R g mv,
       board := push R (board g) mv,
       points_captured :=
         dict_add (points_captured g) (player_name (current_player g))
           (case piece_at R (board g) (to_square mv) of
              None \<Rightarrow> 0 | Some cp \<Rightarrow> PIECE_VALUES (piece_type cp)),
       moves_played := dict_add (moves_played g) (player_name (current_player g)) 1\<rparr>"

section \<open>Sequences of operations\<close>

text \<open>
  The two operations that change a game, a sequence of them run from a game, and the
  sequences in which every operation is applied to a game that is not over (the program
  itself has no such test: neither \<^verbatim>\<open>make_move\<close> nor \<^verbatim>\<open>skip_turn\<close> reads
  \<^verbatim>\<open>game_over\<close>). \<open>start b c\<close> is a fresh game on the board \<open>b\<close> with the first
  player chosen. \<open>budget_ok\<close> is the invariant of the games in play: relative to the
  player to move, the two counters are in one of the listed shapes.
\<close>

datatype operation = Move string | Skip

definition step :: "'b rules \<Rightarrow> 'b game \<Rightarrow> operation \<Rightarrow> 'b game" where
  "step R g x = (case x of Move s \<Rightarrow> snd (make_move R g s) | Skip \<Rightarrow> snd (skip_turn g))"

fun run :: "'b rules \<Rightarrow> 'b game \<Rightarrow> operation list \<Rightarrow> 'b game" where
  "run R g [] = g"
| "run R g (x # xs) = run R (step R g x) xs"

fun in_play :: "'b rules \<Rightarrow> 'b game \<Rightarrow> operation list \<Rightarrow> bool" where
  "in_play R g [] = True"
| "in_play R g (x # xs) = (\<not> game_over g \<and> in_play R (step R g x) xs)"

definition start :: "'b \<Rightarrow> bool \<Rightarrow> 'b game" where
  "start b c = (PointsChessGame b)\<lparr>current_player := c\<rparr>"

definition budget_shape :: "int \<Rightarrow> int \<Rightarrow> bool" where
  "budget_shape x y =
     ((0 \<le> x \<and> x \<le> 5 \<and> (y = x \<or> y = x + 1))
      \<or> (x = 6 \<and> y = 5) \<or> (x = 5 \<and> y = 7) \<or> (x = 6 \<and> y = 7) \<or> (x = 6 \<and> y = 6))"

definition budget_ok :: "'b game \<Rightarrow> bool" where
  "budget_ok g =
     (max_moves g = 6
      \<and> (if game_over g then white (moves_played g) \<le> 7 \<and> black (moves_played g) \<le> 7
         else \<not> extra_move_granted g
              \<and> budget_shape (dict_get (moves_played g) (player_name (current_player g)))
                   (dict_get (moves_played g) (player_name (\<not> current_player g)))))"

text \<open>
  A position with a mate in one for Black: White Kg1, pawns f2, g2 and h2, knight c3;
  Black Kg8, rook e8, pawns d5 and c6; the pawn on d5 is defended by the pawn on c6.
  \<open>before_mate\<close> is the game after ten skipped turns (five moves counted for each
  side) and White's capture \<^verbatim>\<open>c3d5\<close>, which is White's sixth move and takes a
  defended pawn. \<open>after_mate\<close> is the game after the move \<^verbatim>\<open>e8e1\<close> that follows.
\<close>

definition mate_threat :: chess_board where
  "mate_threat =
     position [(6, wp KING), (13, wp PAWN), (14, wp PAWN), (15, wp PAWN), (18, wp KNIGHT),
               (62, bp KING), (60, bp ROOK), (35, bp PAWN), (42, bp PAWN)] WHITE"

definition before_mate :: "chess_board game" where
  "before_mate = run chess (start mate_threat WHITE) (replicate 10 Skip @ [Move ''c3d5''])"

definition after_mate :: "chess_board game" where
  "after_mate = snd (make_move chess before_mate ''e8e1'')"

section \<open>The evaluation as the specification words it\<close>





section \<open>Two lines of play that reach one board\<close>

text \<open>
  White Kh1 and pawn a7, Black Kb7, White to move. White promotes on a8, to a queen in
  one line and to a rook in the other, and the black king takes the new piece.
\<close>

definition promotion_root :: "chess_board game" where
  "promotion_root = PointsChessGame (position [(7, wp KING), (48, wp PAWN), (49, bp KING)] WHITE)"

definition queen_line :: "chess_board game" where
  "queen_line = snd (make_move chess (snd (make_move chess promotion_root ''a7a8q'')) ''b7a8'')"

definition rook_line :: "chess_board game" where
  "rook_line = snd (make_move chess (snd (make_move chess promotion_root ''a7a8r'')) ''b7a8'')"

section \<open>The engine: class ChessEngine\<close>

text \<open>
  Exceptions are values. \<open>TimeoutError\<close> is the signal the search raises at its
  deadline; \<open>ValueError\<close> is what \<^verbatim>\<open>chess.Move.from_uci\<close> raises; \<open>IndexError\<close> is
  what indexing a piece-square table with a square beyond 63 or \<^verbatim>\<open>legal_moves[0]\<close> on
  an empty list raises. A score is a Python float that may be infinite
  (\<^verbatim>\<open>float('inf')\<close>); the finite ones are modelled as exact rationals.
  \<open>score_less x y\<close> is \<^verbatim>\<open>x < y\<close>, \<open>score_max x y\<close> is \<^verbatim>\<open>max(x, y)\<close> (which returns its
  first argument unless the second is greater).

  The queries of the rules engine are total functions, as the interface of the
  specification has them (\<^verbatim>\<open>apply(position, move)\<close> gives a position). An exception
  that the library itself may raise, for instance from \<^verbatim>\<open>push\<close> when \<^verbatim>\<open>_order_moves\<close>
  pushes a move of a deeper game on a copy of the engine's own board, where the move need
  not be playable, is outside this model.
\<close>

datatype error = TimeoutError | ValueError | IndexError

datatype score = NegInf | Fin rat | PosInf

fun score_less :: "score \<Rightarrow> score \<Rightarrow> bool" where
  "score_less NegInf NegInf = False"
| "score_less NegInf y = True"
| "score_less (Fin a) (Fin b) = (a < b)"
| "score_less (Fin a) PosInf = True"
| "score_less x y = False"

fun score_neg :: "score \<Rightarrow> score" where
  "score_neg NegInf = PosInf"
| "score_neg (Fin a) = Fin (- a)"
| "score_neg PosInf = NegInf"

definition score_max :: "score \<Rightarrow> score \<Rightarrow> score" where
  "score_max x y = (if score_less x y then y else x)"

fun piece_square_tables :: "piece_type \<Rightarrow> int list" where
  "piece_square_tables PAWN =
     [0, 0, 0, 0, 0, 0, 0, 0,
      5, 10, 10, -20, -20, 10, 10, 5,
      5, -5, -10, 0, 0, -10, -5, 5,
      0, 0, 0, 20, 20, 0, 0, 0,
      5, 5, 10, 25, 25, 10, 5, 5,
      10, 10, 20, 30, 30, 20, 10, 10,
      50, 50, 50, 50, 50, 50, 50, 50,
      0, 0, 0, 0, 0, 0, 0, 0]"
| "piece_square_tables KNIGHT =
     [-50, -40, -30, -30, -30, -30, -40, -50,
      -40, -20, 0, 5, 5, 0, -20, -40,
      -30, 5, 10, 15, 15, 10, 5, -30,
      -30, 0, 15, 20, 20, 15, 0, -30,
      -30, 5, 15, 20, 20, 15, 5, -30,
      -30, 0, 10, 15, 15, 10, 0, -30,
      -40, -20, 0, 0, 0, 0, -20, -40,
      -50, -40, -30, -30, -30, -30, -40, -50]"
| "piece_square_tables BISHOP =
     [-20, -10, -10, -10, -10, -10, -10, -20,
      -10, 5, 0, 0, 0, 0, 5, -10,
      -10, 10, 10, 10, 10, 10, 10, -10,
      -10, 0, 10, 10, 10, 10, 0, -10,
      -10, 5, 5, 10, 10, 5, 5, -10,
      -10, 0, 5, 10, 10, 5, 0, -10,
      -10, 0, 0, 0, 0, 0, 0, -10,
      -20, -10, -10, -10, -10, -10, -10, -20]"
| "piece_square_tables ROOK =
     [0, 0, 0, 5, 5, 0, 0, 0,
      -5, 0, 0, 0, 0, 0, 0, -5,
      -5, 0, 0, 0, 0, 0, 0, -5,
      -5, 0, 0, 0, 0, 0, 0, -5,
      -5, 0, 0, 0, 0, 0, 0, -5,
      -5, 0, 0, 0, 0, 0, 0, -5,
      5, 10, 10, 10, 10, 10, 10, 5,
      0, 0, 0, 0, 0, 0, 0, 0]"
| "piece_square_tables QUEEN =
     [-20, -10, -10, -5, -5, -10, -10, -20,
      -10, 0, 5, 0, 0, 0, 0, -10,
      -10, 5, 5, 5, 5, 5, 0, -10,
      0, 0, 5, 5, 5, 5, 0, -5,
      -5, 0, 5, 5, 5, 5, 0, -5,
      -10, 0, 5, 5, 5, 5, 0, -10,
      -10, 0, 0, 0, 0, 0, 0, -10,
      -20, -10, -10, -5, -5, -10, -10, -20]"
| "piece_square_tables KING =
     [20, 30, 10, 0, 0, 10, 30, 20,
      20, 20, 0, 0, 0, 0, 20, 20,
      -10, -20, -20, -20, -20, -20, -20, -10,
      -20, -30, -30, -40, -40, -30, -30, -20,
      -30, -40, -40, -50, -50, -40, -40, -30,
      -30, -40, -40, -50, -50, -40, -40, -30,
      -30, -40, -40, -50, -50, -40, -40, -30,
      -30, -40, -40, -50, -50, -40, -40, -30]"

text \<open>\<^verbatim>\<open>self.piece_square_tables[piece.piece_type][sq]\<close>.\<close>

definition pst_at :: "piece_type \<Rightarrow> nat \<Rightarrow> error + int" where
  "pst_at k sq =
     (if sq < length (piece_square_tables k) then Inr (piece_square_tables k ! sq)
      else Inl IndexError)"

text \<open>
  \<^verbatim>\<open>_order_moves\<close>. \<open>order_score\<close> is the body of the loop for one move, on the board
  \<open>b\<close> that the source reads (\<^verbatim>\<open>self.game.board\<close>): \<^verbatim>\<open>board.copy()\<close> followed by
  \<^verbatim>\<open>push\<close> on the copy is \<open>push\<close> on the value. \<open>score_moves\<close> is the loop that
  builds \<^verbatim>\<open>scored_moves\<close>; \<open>sort_descending\<close> is \<^verbatim>\<open>list.sort(key=..., reverse=True)\<close>,
  which is stable: it reverses the list, sorts it stably in ascending order and reverses
  the result.
\<close>

definition order_score :: "'b rules \<Rightarrow> 'b \<Rightarrow> move \<Rightarrow> error + rat" where
  "order_score R b mv =
     (let s0 = (case piece_at R b (to_square mv) of
                  None \<Rightarrow> 0
                | Some captured_piece \<Rightarrow>
                    of_int (PIECE_VALUES (piece_type captured_piece) * 100)
                    + (case piece_at R b (from_square mv) of
                         None \<Rightarrow> 0
                       | Some attacker \<Rightarrow> of_int (10 - PIECE_VALUES (piece_type attacker))));
          s1 = (if is_check R (push R b mv) then s0 + 50 else s0)
      in case piece_at R b (from_square mv) of
           None \<Rightarrow> Inr s1
         | Some p \<Rightarrow>
             (case pst_at (piece_type p) (to_square mv) of
                Inl e \<Rightarrow> Inl e
              | Inr v \<Rightarrow> Inr (s1 + of_int v * (1 / 10))))"

fun score_moves :: "'b rules \<Rightarrow> 'b \<Rightarrow> string list \<Rightarrow> error + (string \<times> rat) list" where
  "score_moves R b [] = Inr []"
| "score_moves R b (move_uci # rest) =
     (case from_uci R move_uci of
        None \<Rightarrow> Inl ValueError
      | Some mv \<Rightarrow>
          (case order_score R b mv of
             Inl e \<Rightarrow> Inl e
           | Inr s \<Rightarrow>
               (case score_moves R b rest of
                  Inl e \<Rightarrow> Inl e
                | Inr scored \<Rightarrow> Inr ((move_uci, s) # scored))))"

definition sort_descending :: "(string \<times> rat) list \<Rightarrow> (string \<times> rat) list" where
  "sort_descending xs = rev (sort_key snd (rev xs))"

definition order_moves :: "'b rules \<Rightarrow> 'b \<Rightarrow> string list \<Rightarrow> error + string list" where
  "order_moves R b moves =
     (case score_moves R b moves of
        Inl e \<Rightarrow> Inl e
      | Inr scored_moves \<Rightarrow> Inr (map fst (sort_descending scored_moves)))"

section \<open>Objects and references\<close>

text \<open>
  The search copies games and mutates the copies, so it is modelled on a store. A
  \<^verbatim>\<open>PointsChessGame\<close> object holds references to its board and to its two dictionaries
  and the values of its other attributes. The store has one cell map for each kind of
  object and one counter of allocated addresses; \<^verbatim>\<open>self.transposition_table\<close> and the
  number of calls of \<^verbatim>\<open>time.time()\<close> made so far complete the state of the world.
  An entry of the table is the pair of its \<^verbatim>\<open>'score'\<close> and its \<^verbatim>\<open>'depth'\<close>.
\<close>

record game_object =
  board_ref :: nat
  max_moves_attr :: int
  moves_played_ref :: nat
  points_captured_ref :: nat
  current_player_attr :: bool
  game_over_attr :: bool
  winner_attr :: "string option"
  last_move_was_capture_attr :: bool
  extra_move_granted_attr :: bool

record 'b world =
  games :: "nat \<Rightarrow> game_object"
  boards :: "nat \<Rightarrow> 'b"
  dicts :: "nat \<Rightarrow> side_dict"
  next_addr :: nat
  transposition_table :: "string \<Rightarrow> (score \<times> nat) option"
  ticks :: nat

text \<open>
  The methods of \<^verbatim>\<open>PointsChessGame\<close> read and assign attributes of \<^verbatim>\<open>self\<close>, push
  on its board and update entries of its dictionaries in place; none rebinds an attribute
  to another object. On the store such a method is: read the value of the object through
  its references, run the method on the value, write the value back through the same
  references.
\<close>

definition read_game :: "'b world \<Rightarrow> nat \<Rightarrow> 'b game" where
  "read_game w a =
     (let ob = games w a
      in \<lparr>board = boards w (board_ref ob),
          max_moves = max_moves_attr ob,
          moves_played = dicts w (moves_played_ref ob),
          points_captured = dicts w (points_captured_ref ob),
          current_player = current_player_attr ob,
          game_over = game_over_attr ob,
          winner = winner_attr ob,
          last_move_was_capture = last_move_was_capture_attr ob,
          extra_move_granted = extra_move_granted_attr ob\<rparr>)"

definition write_game :: "'b world \<Rightarrow> nat \<Rightarrow> 'b game \<Rightarrow> 'b world" where
  "write_game w a g =
     (let ob = games w a
      in w\<lparr>games := (games w)
              (a := ob\<lparr>max_moves_attr := max_moves g,
                       current_player_attr := current_player g,
                       game_over_attr := game_over g,
                       winner_attr := winner g,
                       last_move_was_capture_attr := last_move_was_capture g,
                       extra_move_granted_attr := extra_move_granted g\<rparr>),
            boards := (boards w)(board_ref ob := board g),
            dicts := (dicts w)
              (moves_played_ref ob := moves_played g, points_captured_ref ob := points_captured g)\<rparr>)"

definition make_move_at :: "'b rules \<Rightarrow> 'b world \<Rightarrow> nat \<Rightarrow> string \<Rightarrow> bool \<times> 'b world" where
  "make_move_at R w a move_uci =
     (case make_move R (read_game w a) move_uci of (ok, g') \<Rightarrow> (ok, write_game w a g'))"

text \<open>
  \<^verbatim>\<open>_clone_game\<close>: a new game object (whose \<^verbatim>\<open>max_moves\<close> is the 6 of
  \<^verbatim>\<open>__init__\<close>, not a copy), a new board from \<^verbatim>\<open>board.copy()\<close>, two new dictionaries
  from \<^verbatim>\<open>dict.copy()\<close>, and the other attributes assigned from the original. The
  objects that \<^verbatim>\<open>__init__\<close> creates and the assignments then drop are not modelled.
\<close>

definition clone_game :: "'b world \<Rightarrow> nat \<Rightarrow> nat \<times> 'b world" where
  "clone_game w a =
     (let n = next_addr w; ob = games w a
      in (n,
          w\<lparr>games := (games w)
               (n := \<lparr>board_ref = n, max_moves_attr = 6,
                      moves_played_ref = n, points_captured_ref = Suc n,
                      current_player_attr = current_player_attr ob,
                      game_over_attr = game_over_attr ob,
                      winner_attr = winner_attr ob,
                      last_move_was_capture_attr = last_move_was_capture_attr ob,
                      extra_move_granted_attr = extra_move_granted_attr ob\<rparr>),
             boards := (boards w)(n := boards w (board_ref ob)),
             dicts := (dicts w)
               (n := dicts w (moves_played_ref ob), Suc n := dicts w (points_captured_ref ob)),
             next_addr := Suc (Suc n)\<rparr>))"

text \<open>
  The clock is a parameter: \<open>clock n\<close> is what the \<open>n\<close>-th call of \<^verbatim>\<open>time.time()\<close>
  returns. \<open>timed_out\<close> is the test \<^verbatim>\<open>time.time() - start_time > time_limit * 0.8\<close>.
\<close>

definition time_time :: "(nat \<Rightarrow> rat) \<Rightarrow> 'b world \<Rightarrow> rat \<times> 'b world" where
  "time_time clock w = (clock (ticks w), w\<lparr>ticks := Suc (ticks w)\<rparr>)"

definition timed_out :: "rat \<Rightarrow> rat \<Rightarrow> rat \<Rightarrow> bool" where
  "timed_out now start_time time_limit = (now - start_time > time_limit * (4 / 5))"

record engine =
  self_game :: nat
  max_time :: rat

text \<open>\<^verbatim>\<open>_get_fast_move\<close>: the score of one move, the loop, and the method.\<close>

definition fast_score :: "'b rules \<Rightarrow> 'b \<Rightarrow> move \<Rightarrow> error + rat" where
  "fast_score R b mv =
     (let s0 = (case piece_at R b (to_square mv) of
                  None \<Rightarrow> 0
                | Some captured_piece \<Rightarrow> of_int (PIECE_VALUES (piece_type captured_piece) * 10))
      in case (case piece_at R b (from_square mv) of
                 None \<Rightarrow> Inr s0
               | Some p \<Rightarrow>
                   (case pst_at (piece_type p) (from_square mv) of
                      Inl e \<Rightarrow> Inl e
                    | Inr v \<Rightarrow>
                        (case pst_at (piece_type p) (to_square mv) of
                           Inl e \<Rightarrow> Inl e
                         | Inr v' \<Rightarrow> Inr (s0 - of_int v * (1 / 10) + of_int v' * (1 / 10))))) of
           Inl e \<Rightarrow> Inl e
         | Inr s1 \<Rightarrow> Inr (if is_check R (push R b mv) then s1 + 5 else s1))"

fun fast_loop :: "'b rules \<Rightarrow> 'b game \<Rightarrow> string list \<Rightarrow> score \<Rightarrow> string \<Rightarrow> error + string" where
  "fast_loop R g [] best_score best_move = Inr best_move"
| "fast_loop R g (move_uci # rest) best_score best_move =
     (case from_uci R move_uci of
        None \<Rightarrow> Inl ValueError
      | Some mv \<Rightarrow>
          (case fast_score R (board g) mv of
             Inl e \<Rightarrow> Inl e
           | Inr s \<Rightarrow>
               (if current_player g = WHITE \<and> score_less best_score (Fin s)
                then fast_loop R g rest (Fin s) move_uci
                else if current_player g = BLACK \<and> score_less (Fin s) best_score
                then fast_loop R g rest (Fin s) move_uci
                else fast_loop R g rest best_score best_move)))"

definition worst_score :: "bool \<Rightarrow> score" where
  "worst_score player = (if player = WHITE then NegInf else PosInf)"

definition get_fast_move :: "'b rules \<Rightarrow> 'b game \<Rightarrow> string list \<Rightarrow> error + string" where
  "get_fast_move R g legal =
     (case legal of
        [] \<Rightarrow> Inl IndexError
      | first # _ \<Rightarrow> fast_loop R g legal (worst_score (current_player g)) first)"

text \<open>\<^verbatim>\<open>ChessEngine._evaluate_position\<close>.\<close>

definition engine_evaluate :: "'b rules \<Rightarrow> 'b game \<Rightarrow> rat" where
  "engine_evaluate R g =
     (if current_player g = BLACK then - evaluate_position R g else evaluate_position R g)"

definition tt_lookup :: "'b world \<Rightarrow> string \<Rightarrow> nat \<Rightarrow> score option" where
  "tt_lookup w pos_hash depth =
     (case transposition_table w pos_hash of
        None \<Rightarrow> None
      | Some (s, d) \<Rightarrow> if depth \<le> d then Some s else None)"

definition tt_store :: "'b world \<Rightarrow> string \<Rightarrow> score \<Rightarrow> nat \<Rightarrow> 'b world" where
  "tt_store w pos_hash s depth =
     w\<lparr>transposition_table := (transposition_table w)(pos_hash \<mapsto> (s, depth))\<rparr>"

text \<open>
  \<^verbatim>\<open>_negamax\<close> and its loop over the ordered moves. The depth is a natural number: the
  method is called with \<^verbatim>\<open>depth - 1\<close> for a \<^verbatim>\<open>depth\<close> of at least 1 only. The loop
  carries the depth \<open>d\<close> of the recursive calls. As in the source, the moves of the game
  \<open>a\<close> are ordered on the board of the engine's own game, \<^verbatim>\<open>self.game.board\<close>.
\<close>

function negamax ::
    "'b rules \<Rightarrow> (nat \<Rightarrow> rat) \<Rightarrow> engine \<Rightarrow> nat \<Rightarrow> nat \<Rightarrow> score \<Rightarrow> score \<Rightarrow> int \<Rightarrow> rat \<Rightarrow> rat
       \<Rightarrow> 'b world \<Rightarrow> (error + score) \<times> 'b world"
  and negamax_loop ::
    "'b rules \<Rightarrow> (nat \<Rightarrow> rat) \<Rightarrow> engine \<Rightarrow> nat \<Rightarrow> nat \<Rightarrow> score \<Rightarrow> int \<Rightarrow> rat \<Rightarrow> rat
       \<Rightarrow> string list \<Rightarrow> score \<Rightarrow> score \<Rightarrow> 'b world \<Rightarrow> (error + score) \<times> 'b world"
where
  "negamax R clock self a depth alpha beta side_sign start_time time_limit w =
     (case time_time clock w of
        (now, w1) \<Rightarrow>
          if timed_out now start_time time_limit then (Inl TimeoutError, w1)
          else
            (let g = read_game w1 a; pos_hash = get_position_hash R g
             in case tt_lookup w1 pos_hash depth of
                  Some s \<Rightarrow> (Inr s, w1)
                | None \<Rightarrow>
                    (case depth of
                       0 \<Rightarrow>
                         (let s = Fin (of_int side_sign * engine_evaluate R g)
                          in (Inr s, tt_store w1 pos_hash s depth))
                     | Suc d \<Rightarrow>
                         if game_over g
                         then (let s = Fin (of_int side_sign * engine_evaluate R g)
                               in (Inr s, tt_store w1 pos_hash s depth))
                         else
                           (case order_moves R (board (read_game w1 (self_game self)))
                                   (get_legal_moves R g) of
                              Inl e \<Rightarrow> (Inl e, w1)
                            | Inr ordered_moves \<Rightarrow>
                                (case negamax_loop R clock self a d beta side_sign start_time
                                        time_limit ordered_moves NegInf alpha w1 of
                                   (Inl e, w2) \<Rightarrow> (Inl e, w2)
                                 | (Inr max_score, w2) \<Rightarrow>
                                     (Inr max_score, tt_store w2 pos_hash max_score depth))))))"
| "negamax_loop R clock self a d beta side_sign start_time time_limit [] max_score alpha w =
     (Inr max_score, w)"
| "negamax_loop R clock self a d beta side_sign start_time time_limit (move_uci # rest)
       max_score alpha w =
     (case clone_game w a of
        (game_copy, w1) \<Rightarrow>
          (case negamax R clock self game_copy d (score_neg beta) (score_neg alpha) (- side_sign)
                  start_time time_limit (snd (make_move_at R w1 game_copy move_uci)) of
             (Inl e, w2) \<Rightarrow> (Inl e, w2)
           | (Inr r, w2) \<Rightarrow>
               (let s = score_neg r;
                    max_score' = score_max max_score s;
                    alpha' = score_max alpha s
                in if \<not> score_less alpha' beta then (Inr max_score', w2)
                   else negamax_loop R clock self a d beta side_sign start_time time_limit rest
                          max_score' alpha' w2)))"
  by pat_completeness auto
termination
  by (relation "inv_image (less_than <*lex*> less_than)
        (\<lambda>x. case x of
           Inl (R, clock, self, a, depth, alpha, beta, side_sign, start_time, time_limit, w)
             \<Rightarrow> (depth, 0)
         | Inr (R, clock, self, a, d, beta, side_sign, start_time, time_limit, moves, max_score,
                alpha, w) \<Rightarrow> (d, Suc (length moves)))") auto


text \<open>
  \<^verbatim>\<open>_iterative_deepening_search\<close>: the loop over the ordered root moves, and the method.
  \<^verbatim>\<open>self.game.current_player\<close> is read from the store each time the source reads it.
\<close>

fun search_loop ::
    "'b rules \<Rightarrow> (nat \<Rightarrow> rat) \<Rightarrow> engine \<Rightarrow> nat \<Rightarrow> rat \<Rightarrow> rat \<Rightarrow> string list \<Rightarrow> score
       \<Rightarrow> string \<Rightarrow> 'b world \<Rightarrow> (error + string option) \<times> 'b world"
where
  "search_loop R clock self depth start_time time_limit [] best_score best_move w =
     (Inr (Some best_move), w)"
| "search_loop R clock self depth start_time time_limit (move_uci # rest) best_score best_move w =
     (case time_time clock w of
        (now, w1) \<Rightarrow>
          if timed_out now start_time time_limit then (Inl TimeoutError, w1)
          else
            (case clone_game w1 (self_game self) of
               (game_copy, w2) \<Rightarrow>
                 (let w3 = snd (make_move_at R w2 game_copy move_uci);
                      side_sign = (if current_player (read_game w3 (self_game self)) = WHITE
                                   then - 1 else 1)
                  in case negamax R clock self game_copy (depth - 1) NegInf PosInf side_sign
                            start_time time_limit w3 of
                       (Inl e, w4) \<Rightarrow> (Inl e, w4)
                     | (Inr r, w4) \<Rightarrow>
                         (let player = current_player (read_game w4 (self_game self));
                              s = (if player = BLACK then score_neg r else r)
                          in if player = WHITE \<and> score_less best_score s
                             then search_loop R clock self depth start_time time_limit rest
                                    s move_uci w4
                             else if player = BLACK \<and> score_less s best_score
                             then search_loop R clock self depth start_time time_limit rest
                                    s move_uci w4
                             else search_loop R clock self depth start_time time_limit rest
                                    best_score best_move w4))))"

definition iterative_deepening_search ::
    "'b rules \<Rightarrow> (nat \<Rightarrow> rat) \<Rightarrow> engine \<Rightarrow> nat \<Rightarrow> rat \<Rightarrow> 'b world
       \<Rightarrow> (error + string option) \<times> 'b world"
where
  "iterative_deepening_search R clock self depth time_limit w =
     (case time_time clock w of
        (start_time, w1) \<Rightarrow>
          (let g = read_game w1 (self_game self);
               legal = get_legal_moves R g
           in case legal of
                [] \<Rightarrow> (Inr None, w1)
              | first # _ \<Rightarrow>
                  (case order_moves R (board g) legal of
                     Inl e \<Rightarrow> (Inl e, w1)
                   | Inr ordered_moves \<Rightarrow>
                       search_loop R clock self depth start_time time_limit ordered_moves
                         (worst_score (current_player g)) first w1)))"

text \<open>
  \<^verbatim>\<open>find_best_move\<close>: the loop \<^verbatim>\<open>for depth in range(1, 10)\<close> with its
  \<^verbatim>\<open>try ... except TimeoutError: break\<close> (any other exception passes through), and the
  method. \<^verbatim>\<open>if move:\<close> holds for a string that is not empty.
\<close>

fun deepening ::
    "'b rules \<Rightarrow> (nat \<Rightarrow> rat) \<Rightarrow> engine \<Rightarrow> rat \<Rightarrow> rat \<Rightarrow> nat list \<Rightarrow> string \<Rightarrow> 'b world
       \<Rightarrow> (error + string option) \<times> 'b world"
where
  "deepening R clock self start_time time_limit [] best_move w = (Inr (Some best_move), w)"
| "deepening R clock self start_time time_limit (depth # depths) best_move w =
     (case time_time clock w of
        (t1, w1) \<Rightarrow>
          if timed_out t1 start_time time_limit then (Inr (Some best_move), w1)
          else
            (case time_time clock w1 of
               (t2, w2) \<Rightarrow>
                 (case iterative_deepening_search R clock self depth
                         (time_limit - (t2 - start_time)) w2 of
                    (Inl TimeoutError, w3) \<Rightarrow> (Inr (Some best_move), w3)
                  | (Inl e, w3) \<Rightarrow> (Inl e, w3)
                  | (Inr found, w3) \<Rightarrow>
                      deepening R clock self start_time time_limit depths
                        (case found of
                           None \<Rightarrow> best_move
                         | Some m \<Rightarrow> if m \<noteq> [] then m else best_move)
                        w3)))"

definition find_best_move ::
    "'b rules \<Rightarrow> (nat \<Rightarrow> rat) \<Rightarrow> engine \<Rightarrow> rat option \<Rightarrow> 'b world
       \<Rightarrow> (error + string option) \<times> 'b world"
where
  "find_best_move R clock self time_limit_arg w =
     (let time_limit = (case time_limit_arg of None \<Rightarrow> max_time self | Some t \<Rightarrow> t)
      in case time_time clock w of
           (start_time, w1) \<Rightarrow>
             (let g = read_game w1 (self_game self);
                  legal = get_legal_moves R g
              in if legal = [] then (Inr None, w1)
                 else (case get_fast_move R g legal of
                         Inl e \<Rightarrow> (Inl e, w1)
                       | Inr best_move \<Rightarrow>
                           deepening R clock self start_time time_limit [1..<10] best_move w1)))"

section \<open>Notions for the statements about the search\<close>




definition allocated :: "'b world \<Rightarrow> nat \<Rightarrow> bool" where
  "allocated w a =
     (a < next_addr w \<and> board_ref (games w a) < next_addr w
      \<and> moves_played_ref (games w a) < next_addr w
      \<and> points_captured_ref (games w a) < next_addr w)"

definition frame :: "'b world \<Rightarrow> 'b world \<Rightarrow> bool" where
  "frame w w' =
     (next_addr w \<le> next_addr w'
      \<and> (\<forall>x<next_addr w. games w' x = games w x \<and> boards w' x = boards w x
                           \<and> dicts w' x = dicts w x))"

text \<open>
  A world for the concrete statements: the engine's game is the only object, at address
  0. Scenario A of the specification: White Ke1 and rook a1, Black Ke8 and pawn a7, White
  to move. The clock stands at 0 for its first 40 readings and at 10 from then on.
\<close>

definition new_world :: "'b game \<Rightarrow> 'b world" where
  "new_world g =
     \<lparr>games = (\<lambda>_. \<lparr>board_ref = 0, max_moves_attr = max_moves g, moves_played_ref = 0,
                     points_captured_ref = 1, current_player_attr = current_player g,
                     game_over_attr = game_over g, winner_attr = winner g,
                     last_move_was_capture_attr = last_move_was_capture g,
                     extra_move_granted_attr = extra_move_granted g\<rparr>),
      boards = (\<lambda>_. board g),
      dicts = (\<lambda>a. if a = 0 then moves_played g else points_captured g),
      next_addr = 2,
      transposition_table = Map.empty,
      ticks = 0\<rparr>"

definition the_engine :: engine where
  "the_engine = \<lparr>self_game = 0, max_time = 5\<rparr>"

definition scenario_a :: chess_board where
  "scenario_a = position [(4, wp KING), (0, wp ROOK), (60, bp KING), (48, bp PAWN)] WHITE"

definition clock_a :: "nat \<Rightarrow> rat" where
  "clock_a n = (if n < 40 then 0 else 10)"





section \<open>Rejected moves\<close>

text \<open>
  Claim C7. A move string that the library cannot parse, or whose move is not among the
  legal moves of the current board, makes \<^verbatim>\<open>make_move\<close> return \<^verbatim>\<open>False\<close> and leaves
  the whole game as it was: the board, both dictionaries, the player to move, the
  extra-move flag, \<^verbatim>\<open>game_over\<close>, \<^verbatim>\<open>winner\<close> and every other field.
\<close>

theorem make_move_rejects:
  assumes "from_uci R s = None \<or> (\<exists>mv. from_uci R s = Some mv \<and> mv \<notin> set (legal_moves R (board g)))"
  shows "make_move R g s = (False, g)"
  using assms by (auto simp: make_move_def)

text \<open>
  In Scenario C the string \<^verbatim>\<open>e4e6\<close> parses to a move that is not legal, and the string
  \<^verbatim>\<open>e9e4\<close> does not parse.
\<close>

theorem make_move_rejects_witness:
  "make_move chess (PointsChessGame scenario_c) ''e4e6'' = (False, PointsChessGame scenario_c)
   \<and> make_move chess (PointsChessGame scenario_c) ''e9e4'' = (False, PointsChessGame scenario_c)"
proof -
  have p1: "from_uci chess ''e4e6'' = Some (plain 28 44)"
    by code_simp
  have p2: "plain 28 44 \<notin> set (legal_moves chess (board (PointsChessGame scenario_c)))"
    by code_simp
  have p3: "from_uci chess ''e9e4'' = None"
    by code_simp
  from p1 p2 p3 show ?thesis
    using make_move_rejects [of chess "''e4e6''" "PointsChessGame scenario_c"]
      make_move_rejects [of chess "''e9e4''" "PointsChessGame scenario_c"]
    by blast
qed

section \<open>The steps of \<^verbatim>\<open>make_move\<close>\<close>

lemma apply_move_counted:
  "apply_move R g mv =
     (if is_checkmate R (push R (board g) mv)
      then (counted R g mv)\<lparr>game_over := True, winner := Some (player_name (current_player g))\<rparr>
      else handle_extra_move (end_by_move_count (counted R g mv)))"
proof (cases "piece_at R (board g) (to_square mv)")
  case None
  then show ?thesis
    by (simp add: apply_move_def grant_extra_def counted_def extra_pending_def earns_extra_def Let_def)
next
  case (Some cp)
  then show ?thesis
    by (simp add: apply_move_def grant_extra_def counted_def extra_pending_def earns_extra_def
        is_square_attacked_def Let_def)
qed

lemma counted_fields:
  "board (counted R g mv) = push R (board g) mv"
  "max_moves (counted R g mv) = max_moves g"
  "current_player (counted R g mv) = current_player g"
  "game_over (counted R g mv) = game_over g"
  "winner (counted R g mv) = winner g"
  "extra_move_granted (counted R g mv) = extra_pending R g mv"
  "moves_played (counted R g mv) = dict_add (moves_played g) (player_name (current_player g)) 1"
  by (simp_all add: counted_def)

lemma handle_extra_move_fields:
  "board (handle_extra_move g) = board g"
  "max_moves (handle_extra_move g) = max_moves g"
  "moves_played (handle_extra_move g) = moves_played g"
  "points_captured (handle_extra_move g) = points_captured g"
  "game_over (handle_extra_move g) = game_over g"
  "winner (handle_extra_move g) = winner g"
  "extra_move_granted (handle_extra_move g) = False"
  "current_player (handle_extra_move g) = (if extra_move_granted g then current_player g else \<not> current_player g)"
  by (simp_all add: handle_extra_move_def)

lemma end_by_move_count_fields:
  "board (end_by_move_count g) = board g"
  "max_moves (end_by_move_count g) = max_moves g"
  "moves_played (end_by_move_count g) = moves_played g"
  "points_captured (end_by_move_count g) = points_captured g"
  "extra_move_granted (end_by_move_count g) = extra_move_granted g"
  "current_player (end_by_move_count g) = current_player g"
  by (simp_all add: end_by_move_count_def)

lemma end_by_move_count_over:
  "game_over (end_by_move_count g) =
     (game_over g \<or> (max_moves g \<le> white (moves_played g) \<and> max_moves g \<le> black (moves_played g)
                      \<and> \<not> extra_move_granted g))"
  by (auto simp: end_by_move_count_def)

lemma end_by_move_count_winner:
  "max_moves g \<le> white (moves_played g) \<Longrightarrow> max_moves g \<le> black (moves_played g) \<Longrightarrow>
   \<not> extra_move_granted g \<Longrightarrow> winner (end_by_move_count g) = Some (winner_by_points g)"
  by (simp add: end_by_move_count_def)

lemma winner_by_points_cong:
  "points_captured g = points_captured h \<Longrightarrow> winner_by_points g = winner_by_points h"
  by (simp add: winner_by_points_def)

section \<open>Order of the termination checks\<close>

text \<open>
  Claim C2 asks that a move that gives checkmate ends the game with the mover's side as
  the winner. The program tests checkmate first (lines 90 to 93) and the move counters
  after it (lines 96 to 106), as the claim says, but the winner it records at line 92 is
  \<^verbatim>\<open>player\<close>, the name of \<^verbatim>\<open>current_player\<close>, and \<^verbatim>\<open>current_player\<close> is not
  always the side that moved: after a capture that earns the extra move, and after
  \<^verbatim>\<open>skip_turn\<close>, it differs from the side to move on the board. In the game
  \<open>before_mate\<close>, reached from a fresh game by operations that were each applied while
  the game was not over, \<^verbatim>\<open>current_player\<close> is White and Black is to move on the
  board. Black's rook goes from e8 to e1 and checkmates White; the program ends the game
  and records \<^verbatim>\<open>'white'\<close>, the checkmated side, as the winner.
\<close>

theorem checkmate_winner_is_checkmated_side:
  "in_play chess (start mate_threat WHITE) (replicate 10 Skip @ [Move ''c3d5'', Move ''e8e1''])
   \<and> current_player before_mate = WHITE
   \<and> turn chess (board before_mate) = BLACK
   \<and> moves_played before_mate = \<lparr>white = 6, black = 5\<rparr>
   \<and> \<not> game_over before_mate
   \<and> piece_at chess (board before_mate) 60 = Some (bp ROOK)
   \<and> fst (make_move chess before_mate ''e8e1'')
   \<and> piece_at chess (board after_mate) 4 = Some (bp ROOK)
   \<and> is_checkmate chess (board after_mate)
   \<and> turn chess (board after_mate) = WHITE
   \<and> game_over after_mate
   \<and> winner after_mate = Some ''white''
   \<and> moves_played after_mate = \<lparr>white = 7, black = 5\<rparr>"
  by code_simp

lemma dict_get_player: "dict_get d (player_name c) = (if c then white d else black d)"
  by (simp add: dict_get_def player_name_def)

lemma dict_add_player:
  "dict_add d (player_name c) n = (if c then d\<lparr>white := white d + n\<rparr> else d\<lparr>black := black d + n\<rparr>)"
  by (simp add: dict_add_def player_name_def)

section \<open>The extra move\<close>




section \<open>The move counters\<close>

lemma budget_shape_le: "budget_shape x y \<Longrightarrow> x \<le> 6 \<and> y \<le> 7"
  by (auto simp: budget_shape_def)

lemma budget_ok_bound: "budget_ok g \<Longrightarrow> white (moves_played g) \<le> 7 \<and> black (moves_played g) \<le> 7"
  by (cases "current_player g") (auto simp: budget_ok_def dict_get_player dest: budget_shape_le split: if_splits)

lemma budget_ok_start: "budget_ok (start b c)"
  by (simp add: budget_ok_def start_def PointsChessGame_def budget_shape_def dict_get_player)

lemma shape_normal: "budget_shape x y \<Longrightarrow> \<not> (6 \<le> x + 1 \<and> 6 \<le> y) \<Longrightarrow> budget_shape y (x + 1)"
  by (auto simp: budget_shape_def)

lemma shape_extra: "budget_shape x y \<Longrightarrow> x = 5 \<Longrightarrow> budget_shape (x + 1) y"
  by (auto simp: budget_shape_def)

lemma earns_extra_last:
  "earns_extra R g mv \<Longrightarrow> dict_get (moves_played g) (player_name (current_player g)) = max_moves g - 1"
  by (simp add: earns_extra_def)

lemma dict_get_add_same:
  "dict_get (dict_add d (player_name c) n) (player_name c) = dict_get d (player_name c) + n"
  by (simp add: dict_get_player dict_add_player)

lemma dict_get_add_other:
  "dict_get (dict_add d (player_name c) n) (player_name (\<not> c)) = dict_get d (player_name (\<not> c))"
  by (simp add: dict_get_player dict_add_player)

lemma budget_ok_apply_move:
  assumes inv: "budget_ok g" and play: "\<not> game_over g"
  shows "budget_ok (apply_move R g mv)"
proof -
  let ?x = "dict_get (moves_played g) (player_name (current_player g))"
  let ?y = "dict_get (moves_played g) (player_name (\<not> current_player g))"
  from inv play have m: "max_moves g = 6" and f: "\<not> extra_move_granted g" and sh: "budget_shape ?x ?y"
    by (simp_all add: budget_ok_def)
  from sh have le: "?x \<le> 6" "?y \<le> 7" by (auto dest: budget_shape_le)
  let ?c = "counted R g mv"
  note cx = dict_get_add_same and cy = dict_get_add_other
  have wb: "white (moves_played ?c) \<le> 7 \<and> black (moves_played ?c) \<le> 7"
    using le by (cases "current_player g") (simp_all add: counted_fields dict_get_player dict_add_player)
  have both: "(6 \<le> white (moves_played ?c) \<and> 6 \<le> black (moves_played ?c)) = (6 \<le> ?x + 1 \<and> 6 \<le> ?y)"
    by (cases "current_player g") (auto simp add: counted_fields dict_get_player dict_add_player)
  show ?thesis
  proof (cases "is_checkmate R (push R (board g) mv)")
    case True
    then show ?thesis
      using wb m by (simp add: apply_move_counted budget_ok_def counted_fields)
  next
    case False
    let ?e = "end_by_move_count ?c"
    have eq: "apply_move R g mv = handle_extra_move ?e"
      using False by (simp add: apply_move_counted)
    show ?thesis
    proof (cases "earns_extra R g mv")
      case True
      then have x5: "?x = 5" using m by (simp add: earns_extra_last)
      have pend: "extra_pending R g mv" using True by (simp add: extra_pending_def)
      have "budget_shape (?x + 1) ?y" using sh x5 by (rule shape_extra)
      then show ?thesis
        unfolding eq budget_ok_def
        using pend m play
        by (simp add: handle_extra_move_fields end_by_move_count_fields end_by_move_count_over
            counted_fields cx cy)
    next
      case False
      then have pend: "\<not> extra_pending R g mv" using f by (simp add: extra_pending_def)
      show ?thesis
      proof (cases "6 \<le> ?x + 1 \<and> 6 \<le> ?y")
        case True
        then have "game_over (handle_extra_move ?e)"
          using pend m both
          by (simp add: handle_extra_move_fields end_by_move_count_over counted_fields)
        then show ?thesis
          unfolding eq budget_ok_def using wb m
          by (simp add: handle_extra_move_fields end_by_move_count_fields counted_fields)
      next
        case False
        then have no: "\<not> game_over (handle_extra_move ?e)"
          using pend m both play
          by (simp add: handle_extra_move_fields end_by_move_count_over counted_fields)
        have "budget_shape ?y (?x + 1)" using sh False by (rule shape_normal)
        then show ?thesis
          unfolding eq budget_ok_def using no pend m
          by (simp add: handle_extra_move_fields end_by_move_count_fields counted_fields cx cy)
      qed
    qed
  qed
qed


lemma skip_turn_fields:
  "max_moves (snd (skip_turn g)) = max_moves g"
  "moves_played (snd (skip_turn g)) = dict_add (moves_played g) (player_name (current_player g)) 1"
  "current_player (snd (skip_turn g)) = (\<not> current_player g)"
  "extra_move_granted (snd (skip_turn g)) = extra_move_granted g"
  by (simp_all add: skip_turn_def Let_def)

lemma skip_turn_over:
  "game_over (snd (skip_turn g)) =
     (game_over g \<or> (max_moves g \<le> white (moves_played (snd (skip_turn g)))
                      \<and> max_moves g \<le> black (moves_played (snd (skip_turn g)))))"
  by (auto simp: skip_turn_def Let_def)

lemma budget_ok_skip_turn:
  assumes inv: "budget_ok g" and play: "\<not> game_over g"
  shows "budget_ok (snd (skip_turn g))"
proof -
  let ?x = "dict_get (moves_played g) (player_name (current_player g))"
  let ?y = "dict_get (moves_played g) (player_name (\<not> current_player g))"
  let ?k = "snd (skip_turn g)"
  from inv play have m: "max_moves g = 6" and f: "\<not> extra_move_granted g" and sh: "budget_shape ?x ?y"
    by (simp_all add: budget_ok_def)
  from sh have le: "?x \<le> 6" "?y \<le> 7" by (auto dest: budget_shape_le)
  have wb: "white (moves_played ?k) \<le> 7 \<and> black (moves_played ?k) \<le> 7"
    using le by (cases "current_player g") (simp_all add: skip_turn_fields dict_get_player dict_add_player)
  have both: "(6 \<le> white (moves_played ?k) \<and> 6 \<le> black (moves_played ?k)) = (6 \<le> ?x + 1 \<and> 6 \<le> ?y)"
    by (cases "current_player g") (auto simp add: skip_turn_fields dict_get_player dict_add_player)
  show ?thesis
  proof (cases "6 \<le> ?x + 1 \<and> 6 \<le> ?y")
    case True
    then have "game_over ?k"
      using both m by (subst skip_turn_over) simp
    then show ?thesis
      unfolding budget_ok_def using wb m by (simp add: skip_turn_fields)
  next
    case False
    then have no: "\<not> game_over ?k"
      using both m play by (subst skip_turn_over) simp
    have "budget_shape ?y (?x + 1)" using sh False by (rule shape_normal)
    then show ?thesis
      unfolding budget_ok_def using no m f
      by (simp add: skip_turn_fields dict_get_add_same dict_get_add_other)
  qed
qed

lemma make_move_cases:
  "snd (make_move R g s) = g \<or> (\<exists>mv. snd (make_move R g s) = apply_move R g mv)"
  by (auto simp: make_move_def split: option.splits)

lemma budget_ok_step:
  "budget_ok g \<Longrightarrow> \<not> game_over g \<Longrightarrow> budget_ok (step R g x)"
proof (cases x)
  case (Move s)
  assume "budget_ok g" "\<not> game_over g"
  then show ?thesis
    using make_move_cases [of R g s] Move
    by (auto simp: step_def intro: budget_ok_apply_move)
next
  case Skip
  assume "budget_ok g" "\<not> game_over g"
  then show ?thesis
    using Skip by (simp add: step_def budget_ok_skip_turn)
qed

lemma budget_ok_run:
  "budget_ok g \<Longrightarrow> in_play R g xs \<Longrightarrow> budget_ok (run R g xs)"
  by (induction xs arbitrary: g) (auto intro: budget_ok_step)

lemma max_moves_step: "max_moves (step R g x) = max_moves g"
proof (cases x)
  case (Move s)
  then show ?thesis
    using make_move_cases [of R g s]
    by (auto simp: step_def apply_move_counted handle_extra_move_fields end_by_move_count_fields counted_fields)
next
  case Skip
  then show ?thesis by (simp add: step_def skip_turn_fields)
qed

lemma max_moves_run: "max_moves (run R g xs) = max_moves g"
  by (induction xs arbitrary: g) (simp_all add: max_moves_step)

lemma moves_played_apply_move:
  "moves_played (apply_move R g mv) = dict_add (moves_played g) (player_name (current_player g)) 1"
  by (simp add: apply_move_counted handle_extra_move_fields end_by_move_count_fields counted_fields)

lemma dict_add_mono:
  "white d \<le> white (dict_add d k 1) \<and> black d \<le> black (dict_add d k 1)"
  by (simp add: dict_add_def)

lemma moves_played_step_mono:
  "white (moves_played g) \<le> white (moves_played (step R g x))
   \<and> black (moves_played g) \<le> black (moves_played (step R g x))"
proof (cases x)
  case (Move s)
  then show ?thesis
    using make_move_cases [of R g s] dict_add_mono [of "moves_played g"]
    by (auto simp: step_def moves_played_apply_move)
next
  case Skip
  then show ?thesis
    using dict_add_mono [of "moves_played g"] by (simp add: step_def skip_turn_fields)
qed

text \<open>
  Claim C9, as stated, fails on the program: neither operation looks at \<^verbatim>\<open>game_over\<close>,
  so sixteen calls of \<^verbatim>\<open>skip_turn\<close> on a fresh game (the game is over after twelve)
  bring White's counter to 8, above \<^verbatim>\<open>max_moves + 1 = 7\<close>.
\<close>

theorem moves_played_bound_counterexample:
  "white (moves_played (run chess (PointsChessGame (position [] WHITE)) (replicate 16 Skip))) = 8
   \<and> max_moves (run chess (PointsChessGame (position [] WHITE)) (replicate 16 Skip)) + 1 = 7
   \<and> game_over (run chess (PointsChessGame (position [] WHITE)) (replicate 12 Skip))"
  by code_simp

text \<open>
  Claim C9, amended. Every operation leaves each side's counter where it was or raises it;
  and in every state reached from a fresh game by operations that are each applied to a
  game that is not over, each counter is at most \<^verbatim>\<open>max_moves + 1\<close>.
\<close>

theorem moves_played_monotone_bounded:
  "white (moves_played g) \<le> white (moves_played (step R g x))
   \<and> black (moves_played g) \<le> black (moves_played (step R g x))
   \<and> (in_play R (start b c) xs \<longrightarrow>
        white (moves_played (run R (start b c) xs)) \<le> max_moves (run R (start b c) xs) + 1
        \<and> black (moves_played (run R (start b c) xs)) \<le> max_moves (run R (start b c) xs) + 1)"
proof -
  have "budget_ok (run R (start b c) xs)" if "in_play R (start b c) xs"
    using budget_ok_start that by (rule budget_ok_run)
  moreover have "max_moves (run R (start b c) xs) = 6"
    by (simp add: max_moves_run start_def PointsChessGame_def)
  ultimately show ?thesis
    using moves_played_step_mono [of g R x] by (auto dest: budget_ok_bound)
qed

text \<open>Scenario C: a capture, the recapture, and a skipped turn.\<close>

theorem moves_played_monotone_bounded_witness:
  "in_play chess (start scenario_c WHITE) [Move ''e4d5'', Move ''f6d5'', Skip]
   \<and> white (moves_played (run chess (start scenario_c WHITE) [Move ''e4d5'', Move ''f6d5'', Skip])) = 2
   \<and> black (moves_played (run chess (start scenario_c WHITE) [Move ''e4d5'', Move ''f6d5'', Skip])) = 1
   \<and> max_moves (run chess (start scenario_c WHITE) [Move ''e4d5'', Move ''f6d5'', Skip]) + 1 = 7"
proof -
  let ?xs = "[Move ''e4d5'', Move ''f6d5'', Skip]"
  have h: "in_play chess (start scenario_c WHITE) ?xs"
    by code_simp
  have v: "white (moves_played (run chess (start scenario_c WHITE) ?xs)) = 2"
    "black (moves_played (run chess (start scenario_c WHITE) ?xs)) = 1"
    "max_moves (run chess (start scenario_c WHITE) ?xs) + 1 = 7"
    by code_simp+
  show ?thesis
    using moves_played_monotone_bounded [of _ chess _ scenario_c WHITE ?xs] h v by simp
qed

section \<open>The evaluation\<close>




section \<open>The key of the transposition table\<close>

text \<open>
  Claim C4 is what the cache needs, and the program does not provide it: the key is the
  FEN string of the board followed by \<^verbatim>\<open>str(moves_played)\<close>, and nothing else. The
  two lines of play above are both two plies deep below one root, so one search visits
  both; they end on the same board with the same move counts and get the same key, while
  Black has captured 9 points in one and 5 in the other, and \<^verbatim>\<open>evaluate_position\<close>
  returns -9 for one and -5 for the other.
\<close>

theorem position_hash_collision:
  "get_position_hash chess queen_line = get_position_hash chess rook_line
   \<and> get_position_hash chess queen_line = ''k7/8/8/8/8/8/8/7K w - - 0 2{'white': 1, 'black': 1}''
   \<and> points_captured queen_line = \<lparr>white = 0, black = 9\<rparr>
   \<and> points_captured rook_line = \<lparr>white = 0, black = 5\<rparr>
   \<and> evaluate_position chess queen_line = - 9
   \<and> evaluate_position chess rook_line = - 5"
  by code_simp

section \<open>Move ordering\<close>

lemma score_moves_keys: "score_moves R b ms = Inr scored \<Longrightarrow> map fst scored = ms"
  by (induction ms arbitrary: scored) (auto split: option.splits sum.splits)




lemma sort_descending_mset: "mset (sort_descending xs) = mset xs"
  by (simp add: sort_descending_def)




section \<open>The search leaves existing objects alone\<close>

declare negamax.simps [simp del] negamax_loop.simps [simp del]

lemma frame_refl: "frame w w"
  by (simp add: frame_def)

lemma frame_trans: "frame w w1 \<Longrightarrow> frame w1 w2 \<Longrightarrow> frame w w2"
  by (auto simp: frame_def)

lemma frame_time: "time_time clock w = (t, w1) \<Longrightarrow> frame w w1"
  by (auto simp: time_time_def frame_def)

lemma frame_tt_store: "frame w w1 \<Longrightarrow> frame w (tt_store w1 h s d)"
  by (simp add: frame_def tt_store_def)

lemma frame_clone_move:
  "clone_game w a = (c, w1) \<Longrightarrow> frame w (snd (make_move_at R w1 c u))"
  by (auto simp: clone_game_def make_move_at_def write_game_def frame_def Let_def
      split: prod.splits)

lemma negamax_frame:
  "negamax R clock self a depth alpha beta side_sign start_time time_limit w = (r, w')
     \<Longrightarrow> frame w w'"
  "negamax_loop R clock self a d beta side_sign start_time time_limit ms max_score alpha w = (r, w')
     \<Longrightarrow> frame w w'"
proof (induction R clock self a depth alpha beta side_sign start_time time_limit w
         and R clock self a d beta side_sign start_time time_limit ms max_score alpha w
         arbitrary: r w' and r w' rule: negamax_negamax_loop.induct)
  case (1 R clock self a depth alpha beta side_sign start_time time_limit w)
  obtain now w1 where t: "time_time clock w = (now, w1)"
    by (cases "time_time clock w")
  then have f1: "frame w w1" by (rule frame_time)
  show ?case
  proof (cases "timed_out now start_time time_limit")
    case True
    with "1.prems" t f1 show ?thesis
      by (simp add: negamax.simps)
  next
    case late: False
    let ?g = "read_game w1 a"
    let ?h = "get_position_hash R ?g"
    show ?thesis
    proof (cases "tt_lookup w1 ?h depth")
      case (Some s)
      with "1.prems" t f1 late show ?thesis
        by (simp add: negamax.simps)
    next
      case miss: None
      show ?thesis
      proof (cases depth)
        case 0
        with "1.prems" t f1 late miss show ?thesis
          by (auto simp: negamax.simps Let_def intro: frame_tt_store)
      next
        case (Suc d)
        show ?thesis
        proof (cases "game_over ?g")
          case True
          with "1.prems" t f1 late miss Suc show ?thesis
            by (auto simp: negamax.simps Let_def intro: frame_tt_store)
        next
          case playing: False
          show ?thesis
          proof (cases "order_moves R (board (read_game w1 (self_game self))) (get_legal_moves R ?g)")
            case (Inl e)
            with "1.prems" t f1 late miss Suc playing show ?thesis
              by (simp add: negamax.simps)
          next
            case (Inr ordered)
            obtain r2 w2 where l: "negamax_loop R clock self a d beta side_sign start_time
                  time_limit ordered NegInf alpha w1 = (r2, w2)"
              by (cases "negamax_loop R clock self a d beta side_sign start_time
                  time_limit ordered NegInf alpha w1")
            have "frame w1 w2"
              using "1.IH" [OF t [symmetric] late refl refl miss Suc playing Inr l] .
            with f1 have f2: "frame w w2" by (rule frame_trans)
            from "1.prems" t late miss Suc playing Inr l f2 show ?thesis
              by (cases r2) (auto simp: negamax.simps intro: frame_tt_store)
          qed
        qed
      qed
    qed
  qed
next
  case (2 R clock self a d beta side_sign start_time time_limit max_score alpha w)
  then show ?case by (simp add: negamax_loop.simps frame_refl)
next
  case (3 R clock self a d beta side_sign start_time time_limit move_uci rest max_score alpha w)
  obtain c w1 where cl: "clone_game w a = (c, w1)"
    by (cases "clone_game w a")
  let ?w2 = "snd (make_move_at R w1 c move_uci)"
  have f2: "frame w ?w2" using cl by (rule frame_clone_move)
  obtain r3 w3 where n: "negamax R clock self c d (score_neg beta) (score_neg alpha) (- side_sign)
        start_time time_limit ?w2 = (r3, w3)"
    by (cases "negamax R clock self c d (score_neg beta) (score_neg alpha) (- side_sign)
        start_time time_limit ?w2")
  have "frame ?w2 w3"
    using "3.IH"(1) [OF cl [symmetric] n] .
  with f2 have f3: "frame w w3" by (rule frame_trans)
  show ?case
  proof (cases r3)
    case (Inl e)
    with "3.prems" cl n f3 show ?thesis
      by (simp add: negamax_loop.simps)
  next
    case (Inr s)
    show ?thesis
    proof (cases "score_less (score_max alpha (score_neg s)) beta")
      case False
      with "3.prems" cl n f3 Inr show ?thesis
        by (simp add: negamax_loop.simps Let_def)
    next
      case True
      have eq: "negamax_loop R clock self a d beta side_sign start_time time_limit rest
              (score_max max_score (score_neg s)) (score_max alpha (score_neg s)) w3 = (r, w')"
        using "3.prems" cl n Inr True by (simp add: negamax_loop.simps Let_def)
      have "frame w3 w'"
        using "3.IH"(2) [OF cl [symmetric] n [symmetric] Inr refl refl refl _ eq] True by simp
      with f3 show ?thesis by (rule frame_trans)
    qed
  qed
qed


declare search_loop.simps [simp del] deepening.simps [simp del]

lemma search_loop_props:
  "search_loop R clock self depth start_time time_limit ms best_score best_move w = (r, w')
     \<Longrightarrow> frame w w' \<and> r \<noteq> Inr None \<and> (\<forall>m. r = Inr (Some m) \<longrightarrow> m \<in> set ms \<or> m = best_move)"
proof (induction ms arbitrary: best_score best_move w)
  case Nil
  then show ?case by (auto simp: search_loop.simps frame_refl)
next
  case (Cons u rest)
  obtain now w1 where t: "time_time clock w = (now, w1)"
    by (cases "time_time clock w")
  then have f1: "frame w w1" by (rule frame_time)
  show ?case
  proof (cases "timed_out now start_time time_limit")
    case True
    with Cons.prems t f1 show ?thesis
      by (auto simp: search_loop.simps)
  next
    case late: False
    obtain c w2 where cl: "clone_game w1 (self_game self) = (c, w2)"
      by (cases "clone_game w1 (self_game self)")
    let ?w3 = "snd (make_move_at R w2 c u)"
    let ?sign = "if current_player (read_game ?w3 (self_game self)) = WHITE then - 1 else 1 :: int"
    have f3: "frame w ?w3"
      using f1 frame_clone_move [OF cl] by (rule frame_trans)
    obtain r4 w4 where n: "negamax R clock self c (depth - 1) NegInf PosInf ?sign
          start_time time_limit ?w3 = (r4, w4)"
      by (cases "negamax R clock self c (depth - 1) NegInf PosInf ?sign start_time time_limit ?w3")
    have f4: "frame w w4"
      using f3 negamax_frame(1) [OF n] by (rule frame_trans)
    show ?thesis
    proof (cases r4)
      case (Inl e)
      with Cons.prems t late cl n f4 show ?thesis
        by (auto simp: search_loop.simps Let_def)
    next
      case (Inr s)
      from Cons.prems t late cl n Inr
      obtain bs' bm' where rec: "search_loop R clock self depth start_time time_limit rest bs' bm' w4 = (r, w')"
        and bm': "bm' = u \<or> bm' = best_move"
        by (auto simp: search_loop.simps Let_def split: if_splits)
      from Cons.IH [OF rec] f4 bm' show ?thesis
        by (auto intro: frame_trans)
    qed
  qed
qed

lemma read_game_time: "time_time clock w = (t, w1) \<Longrightarrow> read_game w1 a = read_game w a"
  by (auto simp: time_time_def read_game_def)

lemma order_moves_set: "order_moves R b ms = Inr out \<Longrightarrow> set out = set ms"
proof -
  assume o: "order_moves R b ms = Inr out"
  then obtain scored where sc: "score_moves R b ms = Inr scored"
    and out: "out = map fst (sort_descending scored)"
    by (auto simp: order_moves_def split: sum.splits)
  have "mset out = mset (map fst scored)"
    unfolding out by (simp add: sort_descending_mset)
  then have "mset out = mset ms"
    using score_moves_keys [OF sc] by simp
  then show ?thesis by (rule mset_eq_setD)
qed

lemma iterative_deepening_search_props:
  assumes "iterative_deepening_search R clock self depth time_limit w = (r, w')"
  shows "frame w w'
       \<and> (r = Inr None \<longleftrightarrow> get_legal_moves R (read_game w (self_game self)) = [])
       \<and> (\<forall>m. r = Inr (Some m) \<longrightarrow> m \<in> set (get_legal_moves R (read_game w (self_game self))))"
proof -
  obtain st w1 where t: "time_time clock w = (st, w1)"
    by (cases "time_time clock w")
  then have f1: "frame w w1" by (rule frame_time)
  let ?g = "read_game w (self_game self)"
  have g: "read_game w1 (self_game self) = ?g" using t by (rule read_game_time)
  show ?thesis
  proof (cases "get_legal_moves R ?g")
    case Nil
    with assms t g f1 show ?thesis
      by (auto simp: iterative_deepening_search_def)
  next
    case (Cons first others)
    show ?thesis
    proof (cases "order_moves R (board ?g) (get_legal_moves R ?g)")
      case (Inl e)
      with assms t g f1 Cons show ?thesis
        by (auto simp: iterative_deepening_search_def)
    next
      case (Inr ordered)
      with assms t g Cons
      have sl: "search_loop R clock self depth st time_limit ordered
                  (worst_score (current_player ?g)) first w1 = (r, w')"
        by (simp add: iterative_deepening_search_def)
      have "set ordered = set (get_legal_moves R ?g)"
        using Inr by (rule order_moves_set)
      with search_loop_props [OF sl] f1 Cons show ?thesis
        by (auto intro: frame_trans)
    qed
  qed
qed

lemma frame_read_game: "frame w w' \<Longrightarrow> allocated w a \<Longrightarrow> read_game w' a = read_game w a"
  by (simp add: frame_def allocated_def read_game_def)

lemma frame_allocated: "frame w w' \<Longrightarrow> allocated w a \<Longrightarrow> allocated w' a"
  by (auto simp: frame_def allocated_def)

lemma deepening_props:
  assumes "deepening R clock self start_time time_limit depths best_move w = (r, w')"
    and "allocated w (self_game self)"
  shows "frame w w' \<and> r \<noteq> Inl TimeoutError \<and> r \<noteq> Inr None
       \<and> (\<forall>m. r = Inr (Some m) \<longrightarrow>
             m = best_move \<or> m \<in> set (get_legal_moves R (read_game w (self_game self))))"
  using assms
proof (induction depths arbitrary: best_move w)
  case Nil
  then show ?case by (auto simp: deepening.simps frame_refl)
next
  case (Cons depth depths)
  obtain t1 w1 where t1: "time_time clock w = (t1, w1)"
    by (cases "time_time clock w")
  obtain t2 w2 where t2: "time_time clock w1 = (t2, w2)"
    by (cases "time_time clock w1")
  have f2: "frame w w2" and f1: "frame w w1"
    using frame_time [OF t1] frame_time [OF t2] by (auto intro: frame_trans)
  let ?g = "read_game w (self_game self)"
  have g2: "read_game w2 (self_game self) = ?g"
    using read_game_time [OF t1] read_game_time [OF t2] by simp
  show ?case
  proof (cases "timed_out t1 start_time time_limit")
    case True
    with Cons.prems t1 f1 show ?thesis
      by (auto simp: deepening.simps)
  next
    case late: False
    obtain r3 w3 where ids: "iterative_deepening_search R clock self depth
          (time_limit - (t2 - start_time)) w2 = (r3, w3)"
      by (cases "iterative_deepening_search R clock self depth (time_limit - (t2 - start_time)) w2")
    note p = iterative_deepening_search_props [OF ids, unfolded g2]
    have f3: "frame w w3" using f2 p by (auto intro: frame_trans)
    have a3: "allocated w3 (self_game self)"
      using f3 Cons.prems(2) by (rule frame_allocated)
    have g3: "read_game w3 (self_game self) = ?g"
      using f3 Cons.prems(2) by (rule frame_read_game)
    show ?thesis
    proof (cases r3)
      case (Inl e)
      with Cons.prems t1 t2 late ids f3 show ?thesis
        by (cases e) (auto simp: deepening.simps)
    next
      case (Inr found)
      let ?b = "case found of None \<Rightarrow> best_move | Some m \<Rightarrow> if m \<noteq> [] then m else best_move"
      have rec: "deepening R clock self start_time time_limit depths ?b w3 = (r, w')"
        using Cons.prems t1 t2 late ids Inr by (simp add: deepening.simps)
      have b: "?b = best_move \<or> ?b \<in> set (get_legal_moves R ?g)"
        using p Inr by (auto split: option.splits)
      from Cons.IH [OF rec a3] f3 b show ?thesis
        unfolding g3 by (auto intro: frame_trans)
    qed
  qed
qed

lemma fast_loop_member:
  "fast_loop R g ms best_score best_move = Inr m \<Longrightarrow> m \<in> set ms \<or> m = best_move"
  by (induction ms arbitrary: best_score best_move)
     (auto split: option.splits sum.splits if_splits)

lemma get_fast_move_member: "get_fast_move R g legal = Inr m \<Longrightarrow> m \<in> set legal"
  by (cases legal) (auto simp: get_fast_move_def simp del: fast_loop.simps dest!: fast_loop_member)

lemma pst_at_error: "pst_at k sq = Inl e \<Longrightarrow> e = IndexError"
  by (simp add: pst_at_def split: if_splits)

lemma fast_score_error: "fast_score R b mv = Inl e \<Longrightarrow> e = IndexError"
  by (auto simp: fast_score_def Let_def split: option.splits sum.splits dest: pst_at_error)

lemma fast_loop_error:
  "fast_loop R g ms best_score best_move = Inl e \<Longrightarrow> e \<noteq> TimeoutError"
  by (induction ms arbitrary: best_score best_move)
     (auto split: option.splits sum.splits if_splits dest: fast_score_error)

lemma get_fast_move_error: "get_fast_move R g legal = Inl e \<Longrightarrow> e \<noteq> TimeoutError"
  by (cases legal) (auto simp: get_fast_move_def simp del: fast_loop.simps dest!: fast_loop_error)

lemma find_best_move_props:
  assumes "find_best_move R clock self time_limit w = (r, w')"
    and "allocated w (self_game self)"
  shows "frame w w' \<and> r \<noteq> Inl TimeoutError
       \<and> (r = Inr None \<longleftrightarrow> get_legal_moves R (read_game w (self_game self)) = [])
       \<and> (\<forall>m. r = Inr (Some m) \<longrightarrow> m \<in> set (get_legal_moves R (read_game w (self_game self))))"
proof -
  obtain st w1 where t: "time_time clock w = (st, w1)"
    by (cases "time_time clock w")
  then have f1: "frame w w1" by (rule frame_time)
  let ?g = "read_game w (self_game self)"
  let ?tl = "case time_limit of None \<Rightarrow> max_time self | Some t \<Rightarrow> t"
  have g: "read_game w1 (self_game self) = ?g" using t by (rule read_game_time)
  have a1: "allocated w1 (self_game self)" using f1 assms(2) by (rule frame_allocated)
  show ?thesis
  proof (cases "get_legal_moves R ?g = []")
    case True
    with assms t g f1 show ?thesis
      by (auto simp: find_best_move_def)
  next
    case False
    show ?thesis
    proof (cases "get_fast_move R ?g (get_legal_moves R ?g)")
      case (Inl e)
      then have "e \<noteq> TimeoutError"
        by (rule get_fast_move_error)
      with Inl assms t g f1 False show ?thesis
        by (auto simp: find_best_move_def)
    next
      case (Inr fm)
      with assms t g False
      have d: "deepening R clock self st ?tl [1..<10] fm w1 = (r, w')"
        by (simp add: find_best_move_def)
      from deepening_props [OF d a1] get_fast_move_member [OF Inr] f1 False show ?thesis
        unfolding g by (auto intro: frame_trans)
    qed
  qed
qed

section \<open>Exceptions of the search\<close>










section \<open>The search works on copies\<close>

lemma read_new_world: "read_game (new_world g) 0 = g"
  by (simp add: read_game_def new_world_def)

lemma allocated_new_world: "allocated (new_world g) 0"
  by (simp add: allocated_def new_world_def)

lemma allocated_clone: "allocated w a \<Longrightarrow> clone_game w a = (c, w1) \<Longrightarrow> c \<noteq> a"
  by (auto simp: allocated_def clone_game_def Let_def)

text \<open>
  Claim C8. A call of \<^verbatim>\<open>find_best_move\<close> leaves every object that existed before the
  call as it was; in particular the engine's own game has the same board (position and
  side to move), \<^verbatim>\<open>moves_played\<close>, \<^verbatim>\<open>points_captured\<close>, \<^verbatim>\<open>current_player\<close>,
  \<^verbatim>\<open>game_over\<close>, \<^verbatim>\<open>winner\<close> and \<^verbatim>\<open>extra_move_granted\<close> after the search as before.
  The same holds for every call of \<^verbatim>\<open>_negamax\<close>. And a trial move stays in its branch:
  the copy on which a move is tried is a new object, and when the exploration of that
  copy returns, the game it was copied from is as it was, so the next sibling is copied
  from the unmodified parent.
\<close>

theorem search_works_on_copies:
  "(find_best_move R clock self time_limit w = (res, w') \<and> allocated w (self_game self) \<longrightarrow>
      frame w w' \<and> read_game w' (self_game self) = read_game w (self_game self))
   \<and> (negamax R clock self a depth alpha beta side_sign start_time limit v = (r, v') \<longrightarrow>
        frame v v')
   \<and> (allocated v a \<and> clone_game v a = (c, v1)
        \<and> negamax R clock self c depth alpha beta side_sign start_time limit
             (snd (make_move_at R v1 c move_uci)) = (r, v3) \<longrightarrow>
        c \<noteq> a \<and> read_game v3 a = read_game v a)"
proof (intro conjI impI)
  assume h: "find_best_move R clock self time_limit w = (res, w') \<and> allocated w (self_game self)"
  then show "frame w w'"
    using find_best_move_props by blast
  then show "read_game w' (self_game self) = read_game w (self_game self)"
    using h by (auto intro: frame_read_game)
next
  assume "negamax R clock self a depth alpha beta side_sign start_time limit v = (r, v')"
  then show "frame v v'" by (rule negamax_frame(1))
next
  assume h: "allocated v a \<and> clone_game v a = (c, v1)
        \<and> negamax R clock self c depth alpha beta side_sign start_time limit
             (snd (make_move_at R v1 c move_uci)) = (r, v3)"
  then show "c \<noteq> a" by (auto dest: allocated_clone)
  from h have "frame v (snd (make_move_at R v1 c move_uci))"
    by (auto intro: frame_clone_move)
  moreover from h have "frame (snd (make_move_at R v1 c move_uci)) v3"
    by (auto intro: negamax_frame(1))
  ultimately have "frame v v3" by (rule frame_trans)
  then show "read_game v3 a = read_game v a"
    using h by (auto intro: frame_read_game)
qed

text \<open>Scenario A: the search from the root, and the branch of \<^verbatim>\<open>a1a7\<close>.\<close>

theorem search_works_on_copies_witness:
  "read_game (snd (find_best_move chess clock_a the_engine None (new_world (PointsChessGame scenario_a)))) 0
     = PointsChessGame scenario_a
   \<and> fst (clone_game (new_world (PointsChessGame scenario_a)) 0) \<noteq> 0
   \<and> read_game
        (snd (negamax chess clock_a the_engine
                (fst (clone_game (new_world (PointsChessGame scenario_a)) 0)) 1 NegInf PosInf (- 1) 0 5
                (snd (make_move_at chess (snd (clone_game (new_world (PointsChessGame scenario_a)) 0))
                        (fst (clone_game (new_world (PointsChessGame scenario_a)) 0)) ''a1a7'')))) 0
     = PointsChessGame scenario_a"
proof -
  let ?w = "new_world (PointsChessGame scenario_a)"
  let ?f = "find_best_move chess clock_a the_engine None ?w"
  let ?c = "fst (clone_game ?w 0)"
  let ?v1 = "snd (clone_game ?w 0)"
  let ?n = "negamax chess clock_a the_engine ?c 1 NegInf PosInf (- 1) 0 5
              (snd (make_move_at chess ?v1 ?c ''a1a7''))"
  have s: "self_game the_engine = 0" by (simp add: the_engine_def)
  have f: "?f = (fst ?f, snd ?f)" by simp
  have c: "clone_game ?w 0 = (?c, ?v1)" by simp
  have n: "?n = (fst ?n, snd ?n)" by simp
  have a: "allocated ?w (self_game the_engine)" by (simp add: s allocated_new_world)
  have a0: "allocated ?w 0" by (rule allocated_new_world)
  from search_works_on_copies [where R = chess and clock = clock_a and self = the_engine
      and time_limit = None and w = ?w and res = "fst ?f" and w' = "snd ?f"
      and v = ?w and a = 0 and c = ?c and ?v1.0 = ?v1 and move_uci = "''a1a7''"
      and depth = 1 and alpha = NegInf and beta = PosInf and side_sign = "- 1"
      and start_time = 0 and limit = 5 and r = "fst ?n" and ?v3.0 = "snd ?n"]
    f a a0 c n
  show ?thesis
    by (simp add: s read_new_world)
qed

section \<open>What \<^verbatim>\<open>find_best_move\<close> returns\<close>

























section \<open>The timeout stays inside \<^verbatim>\<open>find_best_move\<close>\<close>



end
